theory Spec2Isabelle
  imports Complex_Main
begin

section \<open>The Cinder block device adapter (flocker/node/agents/cinder.py)\<close>

subsection \<open>Data\<close>

text \<open>
  The definitions keep the names of the source, without the leading underscore of its
  private functions (\<^verbatim>\<open>_get\<close> is \<open>get\<close>, \<^verbatim>\<open>_next_device\<close> is \<open>next_device\<close>).
\<close>

text \<open>
  A UUID is compared by its 128-bit integer value (\<^verbatim>\<open>uuid.UUID.__cmp__\<close>), so it is
  modelled by that number. Metadata is a Python dict from strings to strings.
\<close>

type_synonym uuid = nat

type_synonym metadata = "string \<rightharpoonup> string"

text \<open>
  The \<^verbatim>\<open>cinderclient Volume\<close>: the attributes \<^verbatim>\<open>id\<close>, \<^verbatim>\<open>size\<close> (in GB),
  \<^verbatim>\<open>status\<close> and \<^verbatim>\<open>metadata\<close> the adapter reads.
\<close>

record volume =
  volume_id :: string
  volume_size :: real
  volume_status :: string
  volume_metadata :: metadata

text \<open>
  Modelled from the spec: \<^verbatim>\<open>BlockDeviceVolume\<close> and \<^verbatim>\<open>UnknownVolume\<close> are imported from
  \<^verbatim>\<open>.blockdevice\<close>, which is not among the sources. The spec's volume record is an
  immutable value with the fields \<^verbatim>\<open>blockdevice_id\<close>, \<^verbatim>\<open>size\<close> (bytes), \<^verbatim>\<open>host\<close>
  (absent when unattached) and \<^verbatim>\<open>dataset_id\<close>, updated by replacing a field;
  \<^verbatim>\<open>UnknownVolume\<close> carries the \<^verbatim>\<open>blockdevice_id\<close> that was looked up.
\<close>

record BlockDeviceVolume =
  blockdevice_id :: string
  size_bytes :: int
  host :: "string option"
  dataset_id :: uuid

text \<open>
  The exceptions the module can raise by itself:
  \<^item> \<open>TimedOut\<close> is the bare \<^verbatim>\<open>Exception\<close> of \<^verbatim>\<open>wait_for_volume\<close>, whose message is
    formatted from the expected volume, the expected status, the elapsed time and the
    time limit;
  \<^item> \<open>UnknownVolume\<close> is raised by \<^verbatim>\<open>_get\<close>;
  \<^item> \<open>ValueError\<close> is raised by \<^verbatim>\<open>UUID(...)\<close> on a string that is not a UUID;
  \<^item> \<open>KeyError\<close> is raised by \<^verbatim>\<open>metadata[...]\<close> on a missing key;
  \<^item> \<open>AssertionError\<close> is raised by the \<^verbatim>\<open>assert\<close> of \<^verbatim>\<open>attach_volume\<close>, without
    arguments;
  \<^item> \<open>IndexError\<close> is raised by \<^verbatim>\<open>letters[...]\<close> past the end of the alphabet.
\<close>

datatype error =
    TimedOut volume string real real
  | UnknownVolume string
  | ValueError
  | KeyError string
  | AssertionError
  | IndexError

definition CLUSTER_ID_LABEL :: string where
  "CLUSTER_ID_LABEL = ''flocker-cluster-id''"

definition DATASET_ID_LABEL :: string where
  "DATASET_ID_LABEL = ''flocker-dataset-id''"

subsection \<open>Libraries and collaborators\<close>

text \<open>
  The standard library and \<^verbatim>\<open>bitmath\<close> are outside the repository. What the module uses
  of them is a parameter:
  \<^item> \<open>UUID\<close> is the constructor \<^verbatim>\<open>uuid.UUID(hex)\<close>; \<open>None\<close> stands for its
    \<^verbatim>\<open>ValueError\<close>;
  \<^item> \<open>unicode_uuid\<close> is \<^verbatim>\<open>unicode(u)\<close> on a UUID;
  \<^item> \<open>fl\<close> maps the exact result of a unit conversion to the float that Python
    computes for it (the identity in exact arithmetic).
\<close>

record lib =
  UUID :: "string \<Rightarrow> uuid option"
  unicode_uuid :: "uuid \<Rightarrow> string"
  fl :: "real \<Rightarrow> real"

text \<open>
  \<^verbatim>\<open>Byte(size).to_GB().value\<close> and \<^verbatim>\<open>GB(size).to_Byte().value\<close>: a \<^verbatim>\<open>bitmath\<close> GB
  is \<open>10\<^sup>9\<close> bytes and \<^verbatim>\<open>value\<close> is a float.
\<close>

definition Byte_to_GB :: "(real \<Rightarrow> real) \<Rightarrow> int \<Rightarrow> real" where
  "Byte_to_GB rnd b = rnd (real_of_int b / 10 ^ 9)"

definition GB_to_Byte :: "(real \<Rightarrow> real) \<Rightarrow> real \<Rightarrow> real" where
  "GB_to_Byte rnd g = rnd (g * 10 ^ 9)"

text \<open>Python's \<^verbatim>\<open>int(x)\<close> on a float truncates towards zero.\<close>

definition py_int :: "real \<Rightarrow> int" where
  "py_int x = (if 0 \<le> x then \<lfloor>x\<rfloor> else \<lceil>x\<rceil>)"

text \<open>
  The world outside the process (the provider, the clock, the hypervisor's store and the
  local \<^verbatim>\<open>/dev\<close> directory) is a state of type \<open>'w\<close>, and each external call is a
  function on it:
  \<^item> \<open>time_time\<close> and \<open>time_sleep\<close> are \<^verbatim>\<open>time.time()\<close> and \<^verbatim>\<open>time.sleep(d)\<close>;
  \<^item> \<open>cinder_create\<close>, \<open>cinder_list\<close>, \<open>cinder_set_metadata\<close> are the methods of
    \<^verbatim>\<open>ICinderVolumeManager\<close> the adapter calls;
  \<^item> \<open>nova_create_server_volume\<close> is the method of \<^verbatim>\<open>INovaVolumeManager\<close>;
  \<^item> \<open>xenstore_read_name\<close> is the output of \<^verbatim>\<open>xenstore-read name\<close>;
  \<^item> \<open>dev_children\<close> are the base names of \<^verbatim>\<open>FilePath('/dev').children()\<close> and
    \<open>path_exists\<close> is \<^verbatim>\<open>FilePath(p).exists()\<close>.
  The calls are taken to return: a transport failure of a collaborator is not a branch
  of this module.
\<close>

record 'w env =
  time_time :: "'w \<Rightarrow> real \<times> 'w"
  time_sleep :: "real \<Rightarrow> 'w \<Rightarrow> 'w"
  cinder_create :: "real \<Rightarrow> metadata \<Rightarrow> 'w \<Rightarrow> volume \<times> 'w"
  cinder_list :: "'w \<Rightarrow> volume list \<times> 'w"
  cinder_set_metadata :: "volume \<Rightarrow> metadata \<Rightarrow> 'w \<Rightarrow> 'w"
  nova_create_server_volume :: "uuid \<Rightarrow> string \<Rightarrow> string \<Rightarrow> 'w \<Rightarrow> volume \<times> 'w"
  xenstore_read_name :: "'w \<Rightarrow> string"
  dev_children :: "'w \<Rightarrow> string list"
  path_exists :: "string \<Rightarrow> 'w \<Rightarrow> bool"

text \<open>
  Every request to the two capabilities is recorded, in order, next to the world, so that
  "no request was issued" is a statement about the record.
\<close>

datatype call =
    CinderCreate real metadata
  | CinderList
  | CinderSetMetadata volume metadata
  | NovaCreateServerVolume uuid string string

record 'w state =
  world :: 'w
  calls :: "call list"

definition do_time :: "'w env \<Rightarrow> 'w state \<Rightarrow> real \<times> 'w state" where
  "do_time E s = (let (t, w) = time_time E (world s) in (t, s\<lparr>world := w\<rparr>))"

definition do_sleep :: "'w env \<Rightarrow> real \<Rightarrow> 'w state \<Rightarrow> 'w state" where
  "do_sleep E d s = s\<lparr>world := time_sleep E d (world s)\<rparr>"

definition do_create :: "'w env \<Rightarrow> real \<Rightarrow> metadata \<Rightarrow> 'w state \<Rightarrow> volume \<times> 'w state" where
  "do_create E sz md s =
     (let (v, w) = cinder_create E sz md (world s)
      in (v, s\<lparr>world := w, calls := calls s @ [CinderCreate sz md]\<rparr>))"

definition do_list :: "'w env \<Rightarrow> 'w state \<Rightarrow> volume list \<times> 'w state" where
  "do_list E s =
     (let (vs, w) = cinder_list E (world s)
      in (vs, s\<lparr>world := w, calls := calls s @ [CinderList]\<rparr>))"

definition do_set_metadata :: "'w env \<Rightarrow> volume \<Rightarrow> metadata \<Rightarrow> 'w state \<Rightarrow> 'w state" where
  "do_set_metadata E v md s =
     s\<lparr>world := cinder_set_metadata E v md (world s),
       calls := calls s @ [CinderSetMetadata v md]\<rparr>"

definition do_create_server_volume ::
  "'w env \<Rightarrow> uuid \<Rightarrow> string \<Rightarrow> string \<Rightarrow> 'w state \<Rightarrow> volume \<times> 'w state" where
  "do_create_server_volume E server vol dev s =
     (let (v, w) = nova_create_server_volume E server vol dev (world s)
      in (v, s\<lparr>world := w, calls := calls s @ [NovaCreateServerVolume server vol dev]\<rparr>))"

subsection \<open>wait_for_volume\<close>

text \<open>
  The \<^verbatim>\<open>while True\<close> loop, with the number of polls it may still make as fuel:
  \<open>None\<close> is a loop that has not returned within that many polls. One round lists the
  volumes, returns the first one with the expected id and status, and otherwise reads
  the clock and either sleeps for a tenth of a second or raises.
\<close>

definition matches :: "volume \<Rightarrow> string \<Rightarrow> volume \<Rightarrow> bool" where
  "matches expected_volume expected_status listed_volume \<longleftrightarrow>
     volume_id listed_volume = volume_id expected_volume \<and>
     volume_status listed_volume = expected_status"

fun wait_loop ::
  "nat \<Rightarrow> 'w env \<Rightarrow> real \<Rightarrow> volume \<Rightarrow> string \<Rightarrow> real \<Rightarrow> 'w state
     \<Rightarrow> ((error + volume) \<times> 'w state) option" where
  "wait_loop 0 E start_time expected_volume expected_status time_limit s = None"
| "wait_loop (Suc n) E start_time expected_volume expected_status time_limit s =
     (let (listed, s1) = do_list E s in
      case find (matches expected_volume expected_status) listed of
        Some listed_volume \<Rightarrow> Some (Inr listed_volume, s1)
      | None \<Rightarrow>
          (let (now, s2) = do_time E s1;
               elapsed_time = now - start_time
           in if elapsed_time < time_limit
              then wait_loop n E start_time expected_volume expected_status time_limit
                     (do_sleep E (1 / 10) s2)
              else Some (Inl (TimedOut expected_volume expected_status elapsed_time time_limit),
                         s2)))"

definition wait_for_volume ::
  "nat \<Rightarrow> 'w env \<Rightarrow> volume \<Rightarrow> string \<Rightarrow> real \<Rightarrow> 'w state
     \<Rightarrow> ((error + volume) \<times> 'w state) option" where
  "wait_for_volume n E expected_volume expected_status time_limit s =
     (let (start_time, s0) = do_time E s
      in wait_loop n E start_time expected_volume expected_status time_limit s0)"

text \<open>
  The polls of a waiter. One round of the loop that finds no match takes the state through
  the listing, the reading of the clock and the sleep: \<open>listing_of\<close> is what the round
  lists, \<open>reading_of\<close> what \<^verbatim>\<open>time.time()\<close> then returns and \<open>after_reading\<close> the state
  in which the round raises or goes to sleep. For a waiter started in \<open>s\<close>,
  \<open>poll_state E s k\<close> is the state in which it makes listing number \<open>k\<close> (counted from 0),
  if it gets that far, \<open>listing_at\<close> is that listing, \<open>listed_state\<close> the state after it,
  \<open>elapsed_at\<close> the elapsed time the round computes (its reading of the clock minus the
  reading taken at the start) and \<open>raised_state\<close> the state after that reading.
\<close>

definition listing_of :: "'w env \<Rightarrow> 'w state \<Rightarrow> volume list" where
  "listing_of E s = fst (do_list E s)"

definition reading_of :: "'w env \<Rightarrow> 'w state \<Rightarrow> real" where
  "reading_of E s = fst (do_time E (snd (do_list E s)))"

definition after_reading :: "'w env \<Rightarrow> 'w state \<Rightarrow> 'w state" where
  "after_reading E s = snd (do_time E (snd (do_list E s)))"

fun nth_poll :: "'w env \<Rightarrow> nat \<Rightarrow> 'w state \<Rightarrow> 'w state" where
  "nth_poll E 0 s = s"
| "nth_poll E (Suc k) s = nth_poll E k (do_sleep E (1 / 10) (after_reading E s))"

definition poll_state :: "'w env \<Rightarrow> 'w state \<Rightarrow> nat \<Rightarrow> 'w state" where
  "poll_state E s k = nth_poll E k (snd (do_time E s))"

definition listing_at :: "'w env \<Rightarrow> 'w state \<Rightarrow> nat \<Rightarrow> volume list" where
  "listing_at E s k = listing_of E (poll_state E s k)"

definition listed_state :: "'w env \<Rightarrow> 'w state \<Rightarrow> nat \<Rightarrow> 'w state" where
  "listed_state E s k = snd (do_list E (poll_state E s k))"

definition elapsed_at :: "'w env \<Rightarrow> 'w state \<Rightarrow> nat \<Rightarrow> real" where
  "elapsed_at E s k = reading_of E (poll_state E s k) - fst (do_time E s)"

definition raised_state :: "'w env \<Rightarrow> 'w state \<Rightarrow> nat \<Rightarrow> 'w state" where
  "raised_state E s k = after_reading E (poll_state E s k)"

subsection \<open>_instance_uuid and _next_device\<close>

definition isspace :: "char \<Rightarrow> bool" where
  "isspace c \<longleftrightarrow> c \<in> set [CHR '' '', CHR 0x09, CHR 0x0A, CHR 0x0B, CHR 0x0C, CHR 0x0D]"

definition rstrip :: "string \<Rightarrow> string" where
  "rstrip s = rev (dropWhile isspace (rev s))"

definition startswith :: "string \<Rightarrow> string \<Rightarrow> bool" where
  "startswith s p \<longleftrightarrow> take (length p) s = p"

definition instance_uuid :: "lib \<Rightarrow> 'w env \<Rightarrow> 'w state \<Rightarrow> error + uuid" where
  "instance_uuid L E s =
     (let prefix = ''instance-'';
          name = rstrip (xenstore_read_name E (world s))
      in case UUID L (drop (length prefix) name) of
           None \<Rightarrow> Inl ValueError
         | Some u \<Rightarrow> Inr u)"

definition ascii_lowercase :: string where
  "ascii_lowercase = ''abcdefghijklmnopqrstuvwxyz''"

definition existing_devices :: "string list \<Rightarrow> string list" where
  "existing_devices children =
     filter (\<lambda>basename. startswith (''/dev/'' @ basename) ''/dev/xvd'' \<and> length basename = 4)
       children"

definition next_device :: "string list \<Rightarrow> error + string" where
  "next_device children =
     (let prefix = ''/dev/xvd'';
          existing = existing_devices children;
          letters = ascii_lowercase
      in if length existing < length letters
         then Inr (prefix @ [letters ! length existing])
         else Inl IndexError)"

subsection \<open>Filtering and mapping provider volumes\<close>

definition is_cluster_volume :: "lib \<Rightarrow> uuid \<Rightarrow> volume \<Rightarrow> error + bool" where
  "is_cluster_volume L cluster_id cinder_volume =
     (case volume_metadata cinder_volume CLUSTER_ID_LABEL of
        None \<Rightarrow> Inr False
      | Some actual_cluster_id \<Rightarrow>
          (case UUID L actual_cluster_id of
             None \<Rightarrow> Inl ValueError
           | Some actual \<Rightarrow> Inr (actual = cluster_id)))"

definition blockdevicevolume_from_cinder_volume ::
  "lib \<Rightarrow> volume \<Rightarrow> error + BlockDeviceVolume" where
  "blockdevicevolume_from_cinder_volume L cinder_volume =
     (case volume_metadata cinder_volume DATASET_ID_LABEL of
        None \<Rightarrow> Inl (KeyError DATASET_ID_LABEL)
      | Some label \<Rightarrow>
          (case UUID L label of
             None \<Rightarrow> Inl ValueError
           | Some d \<Rightarrow>
               Inr \<lparr>blockdevice_id = volume_id cinder_volume,
                    size_bytes = py_int (GB_to_Byte (fl L) (volume_size cinder_volume)),
                    host = None,
                    dataset_id = d\<rparr>))"

subsection \<open>CinderBlockDeviceAPI\<close>

definition request_metadata :: "lib \<Rightarrow> uuid \<Rightarrow> uuid \<Rightarrow> metadata" where
  "request_metadata L cluster_id dataset =
     [CLUSTER_ID_LABEL \<mapsto> unicode_uuid L cluster_id,
      DATASET_ID_LABEL \<mapsto> unicode_uuid L dataset]"

definition create_volume ::
  "nat \<Rightarrow> lib \<Rightarrow> 'w env \<Rightarrow> uuid \<Rightarrow> uuid \<Rightarrow> int \<Rightarrow> 'w state
     \<Rightarrow> ((error + BlockDeviceVolume) \<times> 'w state) option" where
  "create_volume n L E cluster_id dataset sz s =
     (let metadata = request_metadata L cluster_id dataset;
          (requested_volume, s1) = do_create E (Byte_to_GB (fl L) sz) metadata s
      in case wait_for_volume n E requested_volume ''available'' 60 s1 of
           None \<Rightarrow> None
         | Some (Inl e, s2) \<Rightarrow> Some (Inl e, s2)
         | Some (Inr created_volume, s2) \<Rightarrow>
             (let s3 = do_set_metadata E created_volume metadata s2
              in Some (blockdevicevolume_from_cinder_volume L requested_volume, s3)))"

fun list_volumes_loop ::
  "lib \<Rightarrow> uuid \<Rightarrow> volume list \<Rightarrow> BlockDeviceVolume list \<Rightarrow> error + BlockDeviceVolume list" where
  "list_volumes_loop L cluster_id [] volumes = Inr volumes"
| "list_volumes_loop L cluster_id (cinder_volume # rest) volumes =
     (case is_cluster_volume L cluster_id cinder_volume of
        Inl e \<Rightarrow> Inl e
      | Inr False \<Rightarrow> list_volumes_loop L cluster_id rest volumes
      | Inr True \<Rightarrow>
          (case blockdevicevolume_from_cinder_volume L cinder_volume of
             Inl e \<Rightarrow> Inl e
           | Inr v \<Rightarrow> list_volumes_loop L cluster_id rest (volumes @ [v])))"

definition list_volumes ::
  "lib \<Rightarrow> 'w env \<Rightarrow> uuid \<Rightarrow> 'w state \<Rightarrow> (error + BlockDeviceVolume list) \<times> 'w state" where
  "list_volumes L E cluster_id s =
     (let (listed, s1) = do_list E s
      in (list_volumes_loop L cluster_id listed [], s1))"

definition get ::
  "lib \<Rightarrow> 'w env \<Rightarrow> uuid \<Rightarrow> string \<Rightarrow> 'w state \<Rightarrow> (error + BlockDeviceVolume) \<times> 'w state" where
  "get L E cluster_id blockdevice s =
     (case list_volumes L E cluster_id s of
        (Inl e, s1) \<Rightarrow> (Inl e, s1)
      | (Inr volumes, s1) \<Rightarrow>
          (case find (\<lambda>v. blockdevice_id v = blockdevice) volumes of
             Some v \<Rightarrow> (Inr v, s1)
           | None \<Rightarrow> (Inl (UnknownVolume blockdevice), s1)))"

definition resize_volume :: "string \<Rightarrow> int \<Rightarrow> 'w state \<Rightarrow> unit \<times> 'w state" where
  "resize_volume blockdevice sz s = ((), s)"

definition attach_volume ::
  "nat \<Rightarrow> lib \<Rightarrow> 'w env \<Rightarrow> uuid \<Rightarrow> string \<Rightarrow> string \<Rightarrow> 'w state
     \<Rightarrow> ((error + BlockDeviceVolume) \<times> 'w state) option" where
  "attach_volume n L E cluster_id blockdevice attach_host s =
     (case get L E cluster_id blockdevice s of
        (Inl e, s1) \<Rightarrow> Some (Inl e, s1)
      | (Inr unattached_volume, s1) \<Rightarrow>
          (case instance_uuid L E s1 of
             Inl e \<Rightarrow> Some (Inl e, s1)
           | Inr local_instance_uuid \<Rightarrow>
               (case next_device (dev_children E (world s1)) of
                  Inl e \<Rightarrow> Some (Inl e, s1)
                | Inr device_path \<Rightarrow>
                    (let (nova_volume, s2) =
                           do_create_server_volume E local_instance_uuid
                             (blockdevice_id unattached_volume) device_path s1
                     in case wait_for_volume n E nova_volume ''in-use'' 60 s2 of
                          None \<Rightarrow> None
                        | Some (Inl e, s3) \<Rightarrow> Some (Inl e, s3)
                        | Some (Inr listed, s3) \<Rightarrow>
                            if path_exists E device_path (world s3)
                            then Some (Inr (unattached_volume\<lparr>host := Some attach_host\<rparr>), s3)
                            else Some (Inl AssertionError, s3)))))"

definition detach_volume :: "string \<Rightarrow> 'w state \<Rightarrow> unit \<times> 'w state" where
  "detach_volume blockdevice s = ((), s)"

definition destroy_volume :: "string \<Rightarrow> 'w state \<Rightarrow> unit \<times> 'w state" where
  "destroy_volume blockdevice s = ((), s)"

definition get_device_path :: "string \<Rightarrow> 'w state \<Rightarrow> string option \<times> 'w state" where
  "get_device_path blockdevice s = (None, s)"

subsection \<open>Ownership, in the words of the specification\<close>

text \<open>
  The specification's filter: a provider volume is cluster-owned iff its metadata contains
  the cluster label and that value parses as a UUID equal to the configured cluster id.
  It is compared with \<open>is_cluster_volume\<close> below. A cluster label is well formed when, if
  present, it parses as a UUID.
\<close>

definition cluster_owned :: "lib \<Rightarrow> uuid \<Rightarrow> volume \<Rightarrow> bool" where
  "cluster_owned L cluster_id v =
     (case volume_metadata v CLUSTER_ID_LABEL of
        None \<Rightarrow> False
      | Some a \<Rightarrow> UUID L a = Some cluster_id)"

definition cluster_label_wellformed :: "lib \<Rightarrow> volume \<Rightarrow> bool" where
  "cluster_label_wellformed L v =
     (case volume_metadata v CLUSTER_ID_LABEL of
        None \<Rightarrow> True
      | Some a \<Rightarrow> UUID L a \<noteq> None)"

subsection \<open>An instance of the libraries and of the collaborators\<close>

text \<open>
  The theorems below hold for every library and every world. To run the adapter on
  concrete inputs, \<open>hex_lib\<close> reads and prints a UUID in its canonical form (32
  hexadecimal digits, hyphens ignored) in exact arithmetic, and \<open>fake_env\<close> is a provider
  in the style of a test double: \<^verbatim>\<open>create\<close> returns the requested volume with its
  metadata and lists it as available without them, \<^verbatim>\<open>create_server_volume\<close> marks the
  volume in-use and, when \<open>fw_attach_makes_node\<close> is set, adds the device node; the clock
  moves only while the process sleeps.
\<close>

definition hexval :: "char \<Rightarrow> nat option" where
  "hexval c =
     (if c \<in> set ''0123456789'' then Some (of_char c - 48)
      else if c \<in> set ''abcdef'' then Some (of_char c - 87)
      else if c \<in> set ''ABCDEF'' then Some (of_char c - 55)
      else None)"

fun hex_to_nat :: "string \<Rightarrow> nat \<Rightarrow> nat option" where
  "hex_to_nat [] acc = Some acc"
| "hex_to_nat (c # cs) acc =
     (case hexval c of None \<Rightarrow> None | Some d \<Rightarrow> hex_to_nat cs (16 * acc + d))"

definition uuid_of_hex :: "string \<Rightarrow> uuid option" where
  "uuid_of_hex s =
     (let h = filter (\<lambda>c. c \<noteq> CHR ''-'') s
      in if length h \<noteq> 32 then None else hex_to_nat h 0)"

fun nat_to_hex :: "nat \<Rightarrow> nat \<Rightarrow> string" where
  "nat_to_hex 0 n = []"
| "nat_to_hex (Suc k) n = nat_to_hex k (n div 16) @ [''0123456789abcdef'' ! (n mod 16)]"

definition hex_of_uuid :: "uuid \<Rightarrow> string" where
  "hex_of_uuid u =
     (let h = nat_to_hex 32 u
      in take 8 h @ ''-'' @ take 4 (drop 8 h) @ ''-'' @ take 4 (drop 12 h) @ ''-'' @
         take 4 (drop 16 h) @ ''-'' @ drop 20 h)"

definition hex_lib :: lib where
  "hex_lib = \<lparr>UUID = uuid_of_hex, unicode_uuid = hex_of_uuid, fl = (\<lambda>x. x)\<rparr>"

record fake_world =
  fw_clock :: real
  fw_volumes :: "volume list"
  fw_dev :: "string list"
  fw_name :: string
  fw_attach_makes_node :: bool

definition fake_env :: "fake_world env" where
  "fake_env =
     \<lparr>time_time = (\<lambda>w. (fw_clock w, w)),
      time_sleep = (\<lambda>d w. w\<lparr>fw_clock := fw_clock w + d\<rparr>),
      cinder_create = (\<lambda>sz md w.
        (\<lparr>volume_id = ''vol-new'', volume_size = sz, volume_status = ''creating'',
          volume_metadata = md\<rparr>,
         w\<lparr>fw_volumes := fw_volumes w @
              [\<lparr>volume_id = ''vol-new'', volume_size = sz, volume_status = ''available'',
                volume_metadata = Map.empty\<rparr>]\<rparr>)),
      cinder_list = (\<lambda>w. (fw_volumes w, w)),
      cinder_set_metadata = (\<lambda>v md w.
        w\<lparr>fw_volumes :=
            map (\<lambda>x. if volume_id x = volume_id v then x\<lparr>volume_metadata := md\<rparr> else x)
              (fw_volumes w)\<rparr>),
      nova_create_server_volume = (\<lambda>server vol dev w.
        (\<lparr>volume_id = vol, volume_size = 0, volume_status = ''attaching'',
          volume_metadata = Map.empty\<rparr>,
         w\<lparr>fw_volumes :=
              map (\<lambda>x. if volume_id x = vol then x\<lparr>volume_status := ''in-use''\<rparr> else x)
                (fw_volumes w),
            fw_dev := (if fw_attach_makes_node w then fw_dev w @ [drop 5 dev] else fw_dev w)\<rparr>)),
      xenstore_read_name = fw_name,
      dev_children = fw_dev,
      path_exists = (\<lambda>p w. p \<in> set (map (\<lambda>b. ''/dev/'' @ b) (fw_dev w)))\<rparr>"

definition fake_world0 :: fake_world where
  "fake_world0 =
     \<lparr>fw_clock = 0, fw_volumes = [], fw_dev = [''xvda'', ''tty0''],
      fw_name = ''instance-00000000-0000-0000-0000-00000000000a\<newline>'',
      fw_attach_makes_node = True\<rparr>"

definition fake_state :: "volume list \<Rightarrow> fake_world state" where
  "fake_state vs = \<lparr>world = fake_world0\<lparr>fw_volumes := vs\<rparr>, calls = []\<rparr>"

definition fake_state_dev :: "volume list \<Rightarrow> string list \<Rightarrow> bool \<Rightarrow> fake_world state" where
  "fake_state_dev vs dev makes_node =
     \<lparr>world = fake_world0\<lparr>fw_volumes := vs, fw_dev := dev, fw_attach_makes_node := makes_node\<rparr>,
      calls = []\<rparr>"

definition xvd_a_to_z :: "string list" where
  "xvd_a_to_z = map (\<lambda>c. ''xvd'' @ [c]) ascii_lowercase"

text \<open>
  Sample provider volumes of one gigabyte: tagged for cluster 10 and dataset 20 or 21,
  tagged for cluster 11, untagged, with a dataset label that is not a UUID, without a
  dataset label, and with a cluster label that is not a UUID.
\<close>

definition sample_volume :: "string \<Rightarrow> metadata \<Rightarrow> volume" where
  "sample_volume i md =
     \<lparr>volume_id = i, volume_size = 1, volume_status = ''available'', volume_metadata = md\<rparr>"

definition vol_a :: volume where
  "vol_a = sample_volume ''vol-a'' (request_metadata hex_lib 10 20)"

definition vol_b :: volume where
  "vol_b = sample_volume ''vol-b'' (request_metadata hex_lib 10 21)"

definition vol_other :: volume where
  "vol_other = sample_volume ''vol-other'' (request_metadata hex_lib 11 20)"

definition vol_untagged :: volume where
  "vol_untagged = sample_volume ''vol-untagged'' Map.empty"

definition vol_bad_dataset :: volume where
  "vol_bad_dataset =
     sample_volume ''vol-bad-dataset''
       ((request_metadata hex_lib 10 20)(DATASET_ID_LABEL \<mapsto> ''not-a-uuid''))"

definition vol_no_dataset :: volume where
  "vol_no_dataset =
     sample_volume ''vol-no-dataset'' [CLUSTER_ID_LABEL \<mapsto> hex_of_uuid 10]"

definition vol_bad_cluster :: volume where
  "vol_bad_cluster = sample_volume ''vol-bad-cluster'' [CLUSTER_ID_LABEL \<mapsto> ''garbage'']"

text \<open>
  A provider on which the status arrives late: it lists nothing until the clock shows
  three tenths of a second, and from then on the sample volume as in-use.
\<close>

definition late_env :: "fake_world env" where
  "late_env =
     fake_env\<lparr>cinder_list :=
       (\<lambda>w. (if 3 / 10 \<le> fw_clock w then [vol_a\<lparr>volume_status := ''in-use''\<rparr>] else [], w))\<rparr>"

section \<open>Properties\<close>

subsection \<open>Evaluation of the instance\<close>

lemma hex_of_uuid_10: "hex_of_uuid 10 = ''00000000-0000-0000-0000-00000000000a''" by code_simp
lemma hex_of_uuid_11: "hex_of_uuid 11 = ''00000000-0000-0000-0000-00000000000b''" by code_simp
lemma hex_of_uuid_20: "hex_of_uuid 20 = ''00000000-0000-0000-0000-000000000014''" by code_simp
lemma hex_of_uuid_21: "hex_of_uuid 21 = ''00000000-0000-0000-0000-000000000015''" by code_simp
lemma uuid_of_hex_10: "uuid_of_hex ''00000000-0000-0000-0000-00000000000a'' = Some 10" by code_simp
lemma uuid_of_hex_11: "uuid_of_hex ''00000000-0000-0000-0000-00000000000b'' = Some 11" by code_simp
lemma uuid_of_hex_20: "uuid_of_hex ''00000000-0000-0000-0000-000000000014'' = Some 20" by code_simp
lemma uuid_of_hex_21: "uuid_of_hex ''00000000-0000-0000-0000-000000000015'' = Some 21" by code_simp
lemma uuid_of_hex_bad: "uuid_of_hex ''not-a-uuid'' = None" by code_simp
lemma uuid_of_hex_garbage: "uuid_of_hex ''garbage'' = None" by code_simp

lemmas hex_evals = hex_of_uuid_10 hex_of_uuid_11 hex_of_uuid_20 hex_of_uuid_21
  uuid_of_hex_10 uuid_of_hex_11 uuid_of_hex_20 uuid_of_hex_21 uuid_of_hex_bad uuid_of_hex_garbage

lemmas world_defs = do_time_def do_list_def do_create_def do_sleep_def do_set_metadata_def
  do_create_server_volume_def fake_env_def fake_world0_def fake_state_def fake_state_dev_def
  hex_lib_def

lemmas sample_defs = sample_volume_def vol_a_def vol_b_def vol_other_def vol_untagged_def
  vol_bad_dataset_def vol_no_dataset_def vol_bad_cluster_def request_metadata_def
  CLUSTER_ID_LABEL_def DATASET_ID_LABEL_def

lemmas mapping_defs = is_cluster_volume_def blockdevicevolume_from_cinder_volume_def
  GB_to_Byte_def Byte_to_GB_def py_int_def cluster_owned_def cluster_label_wellformed_def

lemmas adapter_defs = attach_volume_def get_def list_volumes_def wait_for_volume_def matches_def
  create_volume_def

subsection \<open>The requests on record\<close>

lemma do_list_calls: "calls (snd (do_list E s)) = calls s @ [CinderList]"
  by (simp add: do_list_def split: prod.splits)

lemma list_volumes_snd: "snd (list_volumes L E c s) = snd (do_list E s)"
  by (simp add: list_volumes_def split: prod.splits)

lemma list_volumes_fst:
  "fst (list_volumes L E c s) = list_volumes_loop L c (fst (cinder_list E (world s))) []"
  by (simp add: list_volumes_def do_list_def split: prod.splits)

lemma get_snd: "snd (get L E c b s) = snd (do_list E s)"
  using list_volumes_snd[of L E c s]
  by (auto simp: get_def split: prod.splits sum.splits option.splits)

lemma get_fst:
  "fst (get L E c b s) =
     (case fst (list_volumes L E c s) of
        Inl e \<Rightarrow> Inl e
      | Inr rs \<Rightarrow> (case find (\<lambda>v. blockdevice_id v = b) rs of
                    Some v \<Rightarrow> Inr v | None \<Rightarrow> Inl (UnknownVolume b)))"
  by (simp add: get_def split: prod.splits sum.splits option.splits)

subsection \<open>wait_for_volume: the result and the time-out\<close>

lemma wait_loop_Inr_matches:
  "wait_loop n E start ev es time_limit s = Some (Inr lv, s') \<Longrightarrow> matches ev es lv"
proof (induction n arbitrary: s)
  case 0
  then show ?case by simp
next
  case (Suc n)
  then show ?case
    by (auto simp: Let_def find_Some_iff split: prod.splits option.splits if_splits)
qed

lemma wait_for_volume_Inr_matches:
  "wait_for_volume n E ev es time_limit s = Some (Inr lv, s') \<Longrightarrow> matches ev es lv"
  by (auto simp: wait_for_volume_def split: prod.splits dest: wait_loop_Inr_matches)

text \<open>
  One round of the loop, in terms of what it lists and reads.
\<close>

lemma wait_loop_Suc:
  "wait_loop (Suc n) E start ev es time_limit s =
     (case find (matches ev es) (listing_of E s) of
        Some v \<Rightarrow> Some (Inr v, snd (do_list E s))
      | None \<Rightarrow>
          if reading_of E s - start < time_limit
          then wait_loop n E start ev es time_limit (do_sleep E (1 / 10) (after_reading E s))
          else Some (Inl (TimedOut ev es (reading_of E s - start) time_limit), after_reading E s))"
  by (simp add: listing_of_def reading_of_def after_reading_def Let_def
      split: prod.splits option.splits)

text \<open>
  The loop raises exactly when some round \<open>j\<close> reads an elapsed time at or above the
  limit after the rounds up to \<open>j\<close> have listed no match and the rounds before \<open>j\<close> have
  read an elapsed time below the limit; and it returns the volume that a round lists
  after rounds without a match that read an elapsed time below the limit.
\<close>

lemma wait_loop_raises:
  "wait_loop n E start ev es time_limit s = Some (Inl e, s') \<Longrightarrow>
     \<exists>j<n. e = TimedOut ev es (reading_of E (nth_poll E j s) - start) time_limit \<and>
       time_limit \<le> reading_of E (nth_poll E j s) - start \<and>
       s' = after_reading E (nth_poll E j s) \<and>
       (\<forall>k<Suc j. find (matches ev es) (listing_of E (nth_poll E k s)) = None) \<and>
       (\<forall>i<j. reading_of E (nth_poll E i s) - start < time_limit)"
proof (induction n arbitrary: s)
  case 0
  then show ?case by simp
next
  case (Suc n)
  have none: "find (matches ev es) (listing_of E s) = None"
    using Suc.prems by (cases "find (matches ev es) (listing_of E s)") (simp_all add: wait_loop_Suc del: wait_loop.simps)
  show ?case
  proof (cases "reading_of E s - start < time_limit")
    case False
    then have "e = TimedOut ev es (reading_of E s - start) time_limit" "s' = after_reading E s"
      using Suc.prems none by (simp_all add: wait_loop_Suc del: wait_loop.simps)
    then have "e = TimedOut ev es (reading_of E (nth_poll E 0 s) - start) time_limit \<and>
       time_limit \<le> reading_of E (nth_poll E 0 s) - start \<and>
       s' = after_reading E (nth_poll E 0 s) \<and>
       (\<forall>k<Suc 0. find (matches ev es) (listing_of E (nth_poll E k s)) = None) \<and>
       (\<forall>i<0. reading_of E (nth_poll E i s) - start < time_limit)"
      using False none by simp
    then show ?thesis by blast
  next
    case True
    define s1 where "s1 = do_sleep E (1 / 10) (after_reading E s)"
    have "wait_loop n E start ev es time_limit s1 = Some (Inl e, s')"
      using Suc.prems none True by (simp add: wait_loop_Suc s1_def del: wait_loop.simps)
    from Suc.IH[OF this] obtain j where j: "j < n"
      "e = TimedOut ev es (reading_of E (nth_poll E j s1) - start) time_limit"
      "time_limit \<le> reading_of E (nth_poll E j s1) - start"
      "s' = after_reading E (nth_poll E j s1)"
      "\<forall>k<Suc j. find (matches ev es) (listing_of E (nth_poll E k s1)) = None"
      "\<forall>i<j. reading_of E (nth_poll E i s1) - start < time_limit"
      by blast
    have shift: "\<And>k. nth_poll E (Suc k) s = nth_poll E k s1" by (simp add: s1_def)
    have a: "\<forall>k<Suc (Suc j). find (matches ev es) (listing_of E (nth_poll E k s)) = None"
    proof (intro allI impI)
      fix k assume "k < Suc (Suc j)"
      then show "find (matches ev es) (listing_of E (nth_poll E k s)) = None"
        using none j(5) shift by (cases k) auto
    qed
    have b: "\<forall>i<Suc j. reading_of E (nth_poll E i s) - start < time_limit"
    proof (intro allI impI)
      fix i assume "i < Suc j"
      then show "reading_of E (nth_poll E i s) - start < time_limit"
        using True j(6) shift by (cases i) auto
    qed
    have "Suc j < Suc n" using j(1) by simp
    then show ?thesis using j(2,3,4) a b shift by metis
  qed
qed

lemma wait_loop_raises_at:
  "j < n \<Longrightarrow>
   (\<forall>k<Suc j. find (matches ev es) (listing_of E (nth_poll E k s)) = None) \<Longrightarrow>
   (\<forall>i<j. reading_of E (nth_poll E i s) - start < time_limit) \<Longrightarrow>
   time_limit \<le> reading_of E (nth_poll E j s) - start \<Longrightarrow>
   wait_loop n E start ev es time_limit s =
     Some (Inl (TimedOut ev es (reading_of E (nth_poll E j s) - start) time_limit),
           after_reading E (nth_poll E j s))"
proof (induction j arbitrary: n s)
  case 0
  then obtain m where "n = Suc m" by (cases n) auto
  then show ?case using 0 by (simp add: wait_loop_Suc del: wait_loop.simps)
next
  case (Suc j)
  then obtain m where n: "n = Suc m" "j < m" by (cases n) auto
  define s1 where "s1 = do_sleep E (1 / 10) (after_reading E s)"
  have shift: "\<And>k. nth_poll E (Suc k) s = nth_poll E k s1" by (simp add: s1_def)
  have none: "find (matches ev es) (listing_of E s) = None"
    using Suc.prems(2)[rule_format, of 0] by simp
  have below: "reading_of E s - start < time_limit"
    using Suc.prems(3)[rule_format, of 0] by simp
  have a: "\<forall>k<Suc j. find (matches ev es) (listing_of E (nth_poll E k s1)) = None"
  proof (intro allI impI)
    fix k assume "k < Suc j"
    then show "find (matches ev es) (listing_of E (nth_poll E k s1)) = None"
      using Suc.prems(2)[rule_format, of "Suc k"] shift by simp
  qed
  have b: "\<forall>i<j. reading_of E (nth_poll E i s1) - start < time_limit"
  proof (intro allI impI)
    fix i assume "i < j"
    then show "reading_of E (nth_poll E i s1) - start < time_limit"
      using Suc.prems(3)[rule_format, of "Suc i"] shift by simp
  qed
  have c: "time_limit \<le> reading_of E (nth_poll E j s1) - start"
    using Suc.prems(4) shift by simp
  have "wait_loop m E start ev es time_limit s1 =
     Some (Inl (TimedOut ev es (reading_of E (nth_poll E j s1) - start) time_limit),
           after_reading E (nth_poll E j s1))"
    using Suc.IH[OF n(2) a b c] .
  then show ?case
    using none below n(1) shift by (simp add: wait_loop_Suc s1_def del: wait_loop.simps)
qed

lemma wait_loop_returns_at:
  "j < n \<Longrightarrow>
   (\<forall>k<j. find (matches ev es) (listing_of E (nth_poll E k s)) = None \<and>
           reading_of E (nth_poll E k s) - start < time_limit) \<Longrightarrow>
   find (matches ev es) (listing_of E (nth_poll E j s)) = Some v \<Longrightarrow>
   wait_loop n E start ev es time_limit s = Some (Inr v, snd (do_list E (nth_poll E j s)))"
proof (induction j arbitrary: n s)
  case 0
  then obtain m where "n = Suc m" by (cases n) auto
  then show ?case using 0 by (simp add: wait_loop_Suc del: wait_loop.simps)
next
  case (Suc j)
  then obtain m where n: "n = Suc m" "j < m" by (cases n) auto
  define s1 where "s1 = do_sleep E (1 / 10) (after_reading E s)"
  have shift: "\<And>k. nth_poll E (Suc k) s = nth_poll E k s1" by (simp add: s1_def)
  have first: "find (matches ev es) (listing_of E s) = None" "reading_of E s - start < time_limit"
    using Suc.prems(2)[rule_format, of 0] by simp_all
  have a: "\<forall>k<j. find (matches ev es) (listing_of E (nth_poll E k s1)) = None \<and>
           reading_of E (nth_poll E k s1) - start < time_limit"
  proof (intro allI impI)
    fix k assume "k < j"
    then show "find (matches ev es) (listing_of E (nth_poll E k s1)) = None \<and>
           reading_of E (nth_poll E k s1) - start < time_limit"
      using Suc.prems(2)[rule_format, of "Suc k"] shift by simp
  qed
  have c: "find (matches ev es) (listing_of E (nth_poll E j s1)) = Some v"
    using Suc.prems(3) shift by simp
  have "wait_loop m E start ev es time_limit s1 = Some (Inr v, snd (do_list E (nth_poll E j s1)))"
    using Suc.IH[OF n(2) a c] .
  then show ?case
    using first n(1) shift by (simp add: wait_loop_Suc s1_def del: wait_loop.simps)
qed


lemma wait_for_volume_loop:
  "wait_for_volume n E ev es time_limit s =
     wait_loop n E (fst (do_time E s)) ev es time_limit (snd (do_time E s))"
  by (simp add: wait_for_volume_def split: prod.splits)

lemma wait_for_volume_raises:
  assumes "wait_for_volume n E ev es time_limit s = Some (Inl e, s')"
  shows "\<exists>j<n. e = TimedOut ev es (elapsed_at E s j) time_limit \<and>
           time_limit \<le> elapsed_at E s j \<and> s' = raised_state E s j \<and>
           (\<forall>k\<le>j. find (matches ev es) (listing_at E s k) = None) \<and>
           (\<forall>i<j. elapsed_at E s i < time_limit)"
  using wait_loop_raises[OF assms[unfolded wait_for_volume_loop]]
  by (simp add: elapsed_at_def raised_state_def listing_at_def poll_state_def less_Suc_eq_le)

lemma wait_for_volume_raises_at:
  assumes "j < n"
    and "\<forall>k\<le>j. find (matches ev es) (listing_at E s k) = None"
    and "\<forall>i<j. elapsed_at E s i < time_limit"
    and "time_limit \<le> elapsed_at E s j"
  shows "wait_for_volume n E ev es time_limit s =
           Some (Inl (TimedOut ev es (elapsed_at E s j) time_limit), raised_state E s j)"
  unfolding wait_for_volume_loop elapsed_at_def raised_state_def poll_state_def
  using assms
  by (intro wait_loop_raises_at)
     (simp_all add: elapsed_at_def listing_at_def poll_state_def less_Suc_eq_le)

lemma wait_for_volume_returns_at:
  assumes "j < n"
    and "\<forall>k<j. find (matches ev es) (listing_at E s k) = None \<and> elapsed_at E s k < time_limit"
    and "find (matches ev es) (listing_at E s j) = Some v"
  shows "wait_for_volume n E ev es time_limit s = Some (Inr v, listed_state E s j)"
  unfolding wait_for_volume_loop listed_state_def poll_state_def
  using assms
  by (intro wait_loop_returns_at) (simp_all add: elapsed_at_def listing_at_def poll_state_def)

text \<open>
  The clock is any function \<open>clk\<close> of the world that no call moves back, that brackets
  each reading of \<^verbatim>\<open>time.time()\<close> and that a sleep of \<open>d\<close> seconds advances by at least
  \<open>d\<close>; \<open>P\<close> is any property of the world that the calls preserve. On such a clock
  round \<open>k\<close> reads an elapsed time of at least \<open>k / 10\<close> seconds, and no more than the
  clock has advanced since the waiter was called.
\<close>

lemma do_time_fst: "fst (do_time E s) = fst (time_time E (world s))"
  by (simp add: do_time_def split: prod.splits)

lemma do_time_world: "world (snd (do_time E s)) = snd (time_time E (world s))"
  by (simp add: do_time_def split: prod.splits)

lemma do_list_world: "world (snd (do_list E s)) = snd (cinder_list E (world s))"
  by (simp add: do_list_def split: prod.splits)

lemma do_sleep_world: "world (do_sleep E d s) = time_sleep E d (world s)"
  by (simp add: do_sleep_def)

lemma round_clock:
  assumes time: "\<And>w. P w \<Longrightarrow> clk w \<le> fst (time_time E w) \<and>
                   fst (time_time E w) \<le> clk (snd (time_time E w)) \<and> P (snd (time_time E w))"
    and list: "\<And>w. P w \<Longrightarrow> clk w \<le> clk (snd (cinder_list E w)) \<and> P (snd (cinder_list E w))"
    and "P (world s)"
  shows "clk (world s) \<le> reading_of E s \<and> reading_of E s \<le> clk (world (after_reading E s)) \<and>
         P (world (after_reading E s))"
proof -
  have l: "clk (world s) \<le> clk (snd (cinder_list E (world s)))" "P (snd (cinder_list E (world s)))"
    using list[OF assms(3)] by simp_all
  show ?thesis
    using time[OF l(2)] l(1)
    by (simp add: reading_of_def after_reading_def do_time_fst do_time_world do_list_world)
qed

lemma nth_poll_clock:
  assumes time: "\<And>w. P w \<Longrightarrow> clk w \<le> fst (time_time E w) \<and>
                   fst (time_time E w) \<le> clk (snd (time_time E w)) \<and> P (snd (time_time E w))"
    and sleep: "\<And>w d. P w \<Longrightarrow> clk w + d \<le> clk (time_sleep E d w) \<and> P (time_sleep E d w)"
    and list: "\<And>w. P w \<Longrightarrow> clk w \<le> clk (snd (cinder_list E w)) \<and> P (snd (cinder_list E w))"
  shows "P (world s) \<Longrightarrow>
         P (world (nth_poll E k s)) \<and> clk (world s) + real k / 10 \<le> clk (world (nth_poll E k s))"
proof (induction k arbitrary: s)
  case 0
  then show ?case by simp
next
  case (Suc k)
  define s1 where "s1 = do_sleep E (1 / 10) (after_reading E s)"
  have r: "clk (world s) \<le> reading_of E s" "reading_of E s \<le> clk (world (after_reading E s))"
    "P (world (after_reading E s))"
    using round_clock[of P clk E s, OF time list Suc.prems] by simp_all
  have s1: "clk (world (after_reading E s)) + 1 / 10 \<le> clk (world s1)" "P (world s1)"
    using sleep[OF r(3), of "1 / 10"] by (simp_all add: s1_def do_sleep_world)
  have "P (world (nth_poll E k s1))" "clk (world s1) + real k / 10 \<le> clk (world (nth_poll E k s1))"
    using Suc.IH[OF s1(2)] by simp_all
  moreover have "real (Suc k) / 10 = real k / 10 + 1 / 10" by (simp add: field_simps)
  moreover have "clk (world s) + 1 / 10 \<le> clk (world s1)" using r(1,2) s1(1) by linarith
  ultimately have "P (world (nth_poll E k s1)) \<and>
      clk (world s) + real (Suc k) / 10 \<le> clk (world (nth_poll E k s1))"
    by linarith
  then show ?case by (simp add: s1_def)
qed


lemma elapsed_at_clock:
  assumes time: "\<And>w. P w \<Longrightarrow> clk w \<le> fst (time_time E w) \<and>
                   fst (time_time E w) \<le> clk (snd (time_time E w)) \<and> P (snd (time_time E w))"
    and sleep: "\<And>w d. P w \<Longrightarrow> clk w + d \<le> clk (time_sleep E d w) \<and> P (time_sleep E d w)"
    and list: "\<And>w. P w \<Longrightarrow> clk w \<le> clk (snd (cinder_list E w)) \<and> P (snd (cinder_list E w))"
    and "P (world s)"
  shows "real k / 10 \<le> elapsed_at E s k \<and>
         elapsed_at E s k \<le> clk (world (raised_state E s k)) - clk (world s)"
proof -
  define s0 where "s0 = snd (do_time E s)"
  have start: "clk (world s) \<le> fst (do_time E s)" "fst (do_time E s) \<le> clk (world s0)"
    "P (world s0)"
    using time[OF assms(4)] by (simp_all add: s0_def do_time_fst do_time_world)
  have k: "P (world (nth_poll E k s0))"
    "clk (world s0) + real k / 10 \<le> clk (world (nth_poll E k s0))"
    using nth_poll_clock[of P clk E s0 k, OF time sleep list start(3)] by simp_all
  have r: "clk (world (nth_poll E k s0)) \<le> reading_of E (nth_poll E k s0)"
    "reading_of E (nth_poll E k s0) \<le> clk (world (after_reading E (nth_poll E k s0)))"
    using round_clock[of P clk E "nth_poll E k s0", OF time list k(1)] by simp_all
  show ?thesis
    unfolding elapsed_at_def raised_state_def poll_state_def s0_def[symmetric]
    using start(1,2) k(2) r by linarith
qed

text \<open>
  Claim C4, as amended. For every target volume, expected status and time limit:
  \<^item> if the clock advances while the waiter sleeps, and none of the listings the waiter
    polls shows the target's id with the expected status (the first listing, and each
    listing made after rounds whose elapsed time was below the limit; the last of them
    may itself be made after the limit), then \<open>wait_for_volume\<close> returns within \<open>n + 1\<close>
    polls for every \<open>n\<close> of at least ten times the limit, and what it returns is the
    time-out error (the \<^verbatim>\<open>Exception\<close> whose message is formatted from the target volume,
    the expected status, the elapsed time and the limit); the elapsed time it carries is
    the reading of the clock that follows the last listing minus the reading taken at the
    start, it is greater than or equal to the limit, and the clock has advanced by at
    least the limit since the call;
  \<^item> whatever the world does, every error \<open>wait_for_volume\<close> returns is that time-out
    error, raised in a round that read an elapsed time at or above the limit, after
    rounds that listed no match and read an elapsed time below the limit: it is never
    raised while the elapsed time read from the clock is below the limit;
  \<^item> whatever the world does, a listing that shows the target with the expected status,
    polled after rounds without a match that read an elapsed time below the limit, is
    returned, also when that listing is made after the limit.
\<close>

theorem wait_for_volume_times_out:
  assumes "\<And>w. P w \<Longrightarrow> clk w \<le> fst (time_time E w) \<and>
                   fst (time_time E w) \<le> clk (snd (time_time E w)) \<and> P (snd (time_time E w))"
    and "\<And>w d. P w \<Longrightarrow> clk w + d \<le> clk (time_sleep E d w) \<and> P (time_sleep E d w)"
    and "\<And>w. P w \<Longrightarrow> clk w \<le> clk (snd (cinder_list E w)) \<and> P (snd (cinder_list E w))"
    and "P (world s)" and "time_limit \<le> real n / 10"
    and "\<And>k. k \<le> n \<Longrightarrow> \<forall>i<k. elapsed_at E s i < time_limit \<Longrightarrow>
           find (matches ev es) (listing_at E s k) = None"
  shows "(\<exists>j\<le>n. wait_for_volume (Suc n) E ev es time_limit s =
              Some (Inl (TimedOut ev es (elapsed_at E s j) time_limit), raised_state E s j) \<and>
            time_limit \<le> elapsed_at E s j \<and>
            time_limit \<le> clk (world (raised_state E s j)) - clk (world s)) \<and>
         (\<forall>m s0 e s'. wait_for_volume m E ev es time_limit s0 = Some (Inl e, s') \<longrightarrow>
            (\<exists>j<m. e = TimedOut ev es (elapsed_at E s0 j) time_limit \<and>
               time_limit \<le> elapsed_at E s0 j \<and> s' = raised_state E s0 j \<and>
               (\<forall>k\<le>j. find (matches ev es) (listing_at E s0 k) = None) \<and>
               (\<forall>i<j. elapsed_at E s0 i < time_limit))) \<and>
         (\<forall>m s0 j v. j < m \<and>
            (\<forall>k<j. find (matches ev es) (listing_at E s0 k) = None \<and>
                    elapsed_at E s0 k < time_limit) \<and>
            find (matches ev es) (listing_at E s0 j) = Some v \<longrightarrow>
            wait_for_volume m E ev es time_limit s0 = Some (Inr v, listed_state E s0 j))"
proof -
  have clock: "\<And>k. real k / 10 \<le> elapsed_at E s k \<and>
      elapsed_at E s k \<le> clk (world (raised_state E s k)) - clk (world s)"
    using elapsed_at_clock[of P clk E s, OF assms(1) assms(2) assms(3) assms(4)] by simp
  define j where "j = (LEAST k. time_limit \<le> elapsed_at E s k)"
  have n: "time_limit \<le> elapsed_at E s n"
    using clock[of n] assms(5) by linarith
  have j: "time_limit \<le> elapsed_at E s j" "j \<le> n"
    unfolding j_def using n by (rule LeastI, rule Least_le)
  have below: "\<forall>i<j. elapsed_at E s i < time_limit"
    unfolding j_def using not_less_Least[of _ "\<lambda>k. time_limit \<le> elapsed_at E s k"]
    by (auto simp: not_le)
  have none: "\<forall>k\<le>j. find (matches ev es) (listing_at E s k) = None"
  proof (intro allI impI)
    fix k assume k: "k \<le> j"
    then have "\<forall>i<k. elapsed_at E s i < time_limit" using below by simp
    moreover have "k \<le> n" using k j(2) by simp
    ultimately show "find (matches ev es) (listing_at E s k) = None"
      using assms(6) by blast
  qed
  have "j < Suc n" using j(2) by simp
  then have "wait_for_volume (Suc n) E ev es time_limit s =
      Some (Inl (TimedOut ev es (elapsed_at E s j) time_limit), raised_state E s j)"
    using none below j(1) by (rule wait_for_volume_raises_at)
  moreover have "time_limit \<le> clk (world (raised_state E s j)) - clk (world s)"
    using clock[of j] j(1) by linarith
  ultimately have first: "\<exists>j\<le>n. wait_for_volume (Suc n) E ev es time_limit s =
              Some (Inl (TimedOut ev es (elapsed_at E s j) time_limit), raised_state E s j) \<and>
            time_limit \<le> elapsed_at E s j \<and>
            time_limit \<le> clk (world (raised_state E s j)) - clk (world s)"
    using j by blast
  show ?thesis
    using first wait_for_volume_raises[of _ E ev es time_limit]
      wait_for_volume_returns_at[of _ _ ev es E _ time_limit]
    by blast
qed


lemma fake_env_nth_poll_volumes:
  "fw_volumes (world (nth_poll fake_env k s)) = fw_volumes (world s)"
  by (induction k arbitrary: s)
     (simp_all add: after_reading_def do_sleep_def do_time_def do_list_def fake_env_def)

lemma fake_env_listing_at: "listing_at fake_env s k = fw_volumes (world s)"
proof -
  have "listing_at fake_env s k = fw_volumes (world (nth_poll fake_env k (snd (do_time fake_env s))))"
    by (simp add: listing_at_def listing_of_def poll_state_def do_list_def fake_env_def)
  then show ?thesis
    by (simp add: fake_env_nth_poll_volumes) (simp add: do_time_def fake_env_def)
qed

lemmas poll_defs = poll_state_def listing_at_def listed_state_def elapsed_at_def raised_state_def
  listing_of_def reading_of_def after_reading_def

text \<open>
  A run with a limit of a quarter of a second on a clock that only moves while the waiter
  sleeps: the third poll reads 0.2 seconds, the fourth reads 0.3 seconds and raises.
\<close>

theorem wait_for_volume_times_out_witness:
  "map_option fst (wait_for_volume 4 fake_env vol_a ''in-use'' (1 / 4) (fake_state [vol_b])) =
     Some (Inl (TimedOut vol_a ''in-use'' (3 / 10) (1 / 4))) \<and>
   elapsed_at fake_env (fake_state [vol_b]) 2 = 1 / 5 \<and>
   elapsed_at fake_env (fake_state [vol_b]) 3 = 3 / 10 \<and>
   fw_clock (world (raised_state fake_env (fake_state [vol_b]) 3)) = 3 / 10"
proof -
  have t: "\<And>w. True \<Longrightarrow> fw_clock w \<le> fst (time_time fake_env w) \<and>
      fst (time_time fake_env w) \<le> fw_clock (snd (time_time fake_env w)) \<and> True"
    by (simp add: fake_env_def)
  have sl: "\<And>w d. True \<Longrightarrow> fw_clock w + d \<le> fw_clock (time_sleep fake_env d w) \<and> True"
    by (simp add: fake_env_def)
  have l: "\<And>w. True \<Longrightarrow> fw_clock w \<le> fw_clock (snd (cinder_list fake_env w)) \<and> True"
    by (simp add: fake_env_def)
  have f: "(1 / 4 :: real) \<le> real 3 / 10"
    by simp
  have p: "\<And>k. k \<le> 3 \<Longrightarrow> \<forall>i<k. elapsed_at fake_env (fake_state [vol_b]) i < 1 / 4 \<Longrightarrow>
      find (matches vol_a ''in-use'') (listing_at fake_env (fake_state [vol_b]) k) = None"
    by (simp add: fake_env_listing_at fake_state_def matches_def sample_defs)
  have e: "elapsed_at fake_env (fake_state [vol_b]) 2 = 1 / 5"
    "elapsed_at fake_env (fake_state [vol_b]) 3 = 3 / 10"
    "fw_clock (world (raised_state fake_env (fake_state [vol_b]) 3)) = 3 / 10"
    by (simp_all add: poll_defs world_defs eval_nat_numeral)
  show ?thesis
    using wait_for_volume_times_out[of "\<lambda>w. True" fw_clock fake_env
        "fake_state [vol_b]" "1 / 4" 3 vol_a "''in-use''", OF t sl l TrueI f p] e
    by (simp add: adapter_defs world_defs sample_defs eval_nat_numeral Let_def)
qed

text \<open>
  As stated, C4 fails. On the late provider no listing made within the limit of a quarter
  of a second shows the target; the waiter polls at 0, 0.1 and 0.2 seconds, sleeps past
  the limit, and its poll at 0.3 seconds shows the volume in-use: the volume is returned
  and no time-out is raised.
\<close>

theorem wait_for_volume_late_match_counterexample:
  "(\<forall>w. 1 / 4 < fw_clock w \<or> fst (cinder_list late_env w) = []) \<and>
   map (\<lambda>k. (fw_clock (world (poll_state late_env (fake_state []) k)),
             map volume_status (listing_at late_env (fake_state []) k))) [0, 1, 2, 3] =
     [(0, []), (1 / 10, []), (1 / 5, []), (3 / 10, [''in-use''])] \<and>
   map_option fst (wait_for_volume 4 late_env vol_a ''in-use'' (1 / 4) (fake_state [])) =
     Some (Inr (vol_a\<lparr>volume_status := ''in-use''\<rparr>))"
  by (simp add: late_env_def poll_defs adapter_defs world_defs sample_defs eval_nat_numeral
      Let_def)

subsection \<open>_next_device: the device path allocator\<close>

lemma existing_devices_eq:
  "existing_devices children = filter (\<lambda>b. length b = 4 \<and> take 3 b = ''xvd'') children"
  unfolding existing_devices_def startswith_def
  by (rule filter_cong) (auto simp: numeral_3_eq_3)

text \<open>
  Claim C9, as amended. For every state of \<^verbatim>\<open>/dev\<close> with fewer than 26 entries whose path
  starts with \<^verbatim>\<open>/dev/xvd\<close> and whose base name has four characters, the allocator returns
  \<^verbatim>\<open>/dev/xvd\<close> followed by the lowercase letter whose index in the alphabet is the number
  of those entries.
\<close>

theorem next_device_letter:
  assumes "length (existing_devices children) < 26"
  shows "next_device children =
           Inr (''/dev/xvd'' @ [ascii_lowercase ! length (existing_devices children)]) \<and>
         existing_devices children =
           filter (\<lambda>b. startswith (''/dev/'' @ b) ''/dev/xvd'' \<and> length b = 4) children"
  using assms by (simp add: next_device_def Let_def ascii_lowercase_def existing_devices_def)

text \<open>
  A run: with \<^verbatim>\<open>xvda\<close> and \<^verbatim>\<open>xvdb\<close> present (and three entries that do not count), the
  next path is \<^verbatim>\<open>/dev/xvdc\<close>.
\<close>

theorem next_device_letter_witness:
  "length (existing_devices [''xvda'', ''sda'', ''xvdb'', ''xvda1'', ''tty0'']) < 26 \<and>
   next_device [''xvda'', ''sda'', ''xvdb'', ''xvda1'', ''tty0''] = Inr ''/dev/xvdc''"
proof -
  have h: "length (existing_devices [''xvda'', ''sda'', ''xvdb'', ''xvda1'', ''tty0'']) < 26"
    by (simp add: existing_devices_def startswith_def)
  show ?thesis
    using h next_device_letter[OF h]
    by (simp add: existing_devices_def startswith_def ascii_lowercase_def)
qed

text \<open>
  As stated, for every state of the file system, C9 fails: with the 26 nodes
  \<^verbatim>\<open>xvda\<close> to \<^verbatim>\<open>xvdz\<close> present there is no next letter, and no path is returned.
\<close>

theorem next_device_26_counterexample:
  "next_device xvd_a_to_z = Inl IndexError"
  by (simp add: next_device_def existing_devices_def startswith_def ascii_lowercase_def
      xvd_a_to_z_def)

lemma next_device_exhausted:
  "26 \<le> length (existing_devices children) \<Longrightarrow> next_device children = Inl IndexError"
  by (simp add: next_device_def Let_def ascii_lowercase_def)

subsection \<open>_is_cluster_volume and list_volumes: filtering by cluster\<close>

lemma list_volumes_loop_acc:
  "list_volumes_loop L c vs acc =
     (case list_volumes_loop L c vs [] of Inl e \<Rightarrow> Inl e | Inr rs \<Rightarrow> Inr (acc @ rs))"
proof (induction vs arbitrary: acc)
  case Nil
  show ?case by simp
next
  case (Cons v vs)
  show ?case
  proof (cases "is_cluster_volume L c v")
    case (Inl e)
    then show ?thesis by simp
  next
    case (Inr b)
    show ?thesis
    proof (cases b)
      case False
      then show ?thesis using Inr Cons.IH[of acc] by simp
    next
      case True
      show ?thesis
      proof (cases "blockdevicevolume_from_cinder_volume L v")
        case (Inl e)
        then show ?thesis using Inr True by simp
      next
        case r: (Inr r)
        show ?thesis
          using Inr True r Cons.IH[of "acc @ [r]"] Cons.IH[of "[r]"]
          by (simp split: sum.splits)
      qed
    qed
  qed
qed

lemma is_cluster_volume_wellformed:
  "cluster_label_wellformed L v \<Longrightarrow> is_cluster_volume L c v = Inr (cluster_owned L c v)"
  by (auto simp: is_cluster_volume_def cluster_label_wellformed_def cluster_owned_def
      split: option.splits)

lemma is_cluster_volume_True_iff:
  "is_cluster_volume L c v = Inr True \<longleftrightarrow> cluster_owned L c v"
  by (auto simp: is_cluster_volume_def cluster_owned_def split: option.splits)

lemma is_cluster_volume_Inr_wellformed:
  "is_cluster_volume L c v = Inr b \<Longrightarrow> cluster_label_wellformed L v"
  by (auto simp: is_cluster_volume_def cluster_label_wellformed_def split: option.splits)

lemma list_volumes_loop_filter:
  assumes "\<forall>v\<in>set vs. cluster_label_wellformed L v"
  shows "list_volumes_loop L c vs [] = Inr rs \<longleftrightarrow>
         map (blockdevicevolume_from_cinder_volume L) (filter (cluster_owned L c) vs) = map Inr rs"
  using assms
proof (induction vs arbitrary: rs)
  case Nil
  show ?case by auto
next
  case (Cons v vs)
  have wf: "is_cluster_volume L c v = Inr (cluster_owned L c v)"
    using Cons.prems by (simp add: is_cluster_volume_wellformed)
  have IH: "\<And>rs. list_volumes_loop L c vs [] = Inr rs \<longleftrightarrow>
         map (blockdevicevolume_from_cinder_volume L) (filter (cluster_owned L c) vs) = map Inr rs"
    using Cons.IH Cons.prems by simp
  show ?case
  proof (cases "cluster_owned L c v")
    case False
    then show ?thesis using wf IH by simp
  next
    case True
    show ?thesis
    proof (cases "blockdevicevolume_from_cinder_volume L v")
      case (Inl e)
      then show ?thesis using wf True by (auto simp: map_eq_Cons_conv)
    next
      case (Inr r)
      have "list_volumes_loop L c (v # vs) [] = Inr rs \<longleftrightarrow>
            (\<exists>rs'. list_volumes_loop L c vs [] = Inr rs' \<and> rs = r # rs')"
        using wf True Inr
        by (auto simp: list_volumes_loop_acc[of L c vs "[r]"] split: sum.splits)
      also have "\<dots> \<longleftrightarrow> (\<exists>rs'. map (blockdevicevolume_from_cinder_volume L)
            (filter (cluster_owned L c) vs) = map Inr rs' \<and> rs = r # rs')"
        using IH by simp
      also have "\<dots> \<longleftrightarrow> map (blockdevicevolume_from_cinder_volume L)
            (filter (cluster_owned L c) (v # vs)) = map Inr rs"
        using True Inr by (auto simp: Cons_eq_map_conv)
      finally show ?thesis .
    qed
  qed
qed

lemma list_volumes_loop_Inr_wellformed:
  "list_volumes_loop L c vs acc = Inr rs \<Longrightarrow> \<forall>v\<in>set vs. cluster_label_wellformed L v"
proof (induction vs arbitrary: acc)
  case Nil
  show ?case by simp
next
  case (Cons v vs)
  then show ?case
    by (auto split: sum.splits bool.splits dest: is_cluster_volume_Inr_wellformed)
qed

lemma from_cinder_id:
  "blockdevicevolume_from_cinder_volume L v = Inr r \<Longrightarrow> blockdevice_id r = volume_id v"
  by (auto simp: blockdevicevolume_from_cinder_volume_def split: option.splits)

lemma map_Inr_transfer:
  assumes "map f xs = map Inr rs" and "\<And>x r. f x = Inr r \<Longrightarrow> g r = h x"
  shows "map g rs = map h xs"
  using assms(1)
proof (induction xs arbitrary: rs)
  case Nil
  then show ?case by simp
next
  case (Cons x xs)
  then obtain r rs' where "rs = r # rs'" "f x = Inr r" "map f xs = map Inr rs'"
    by (auto simp: Cons_eq_map_conv)
  then show ?case using Cons.IH assms(2) by simp
qed

lemma list_volumes_loop_ids:
  assumes "list_volumes_loop L c vs [] = Inr rs"
  shows "map blockdevice_id rs = map volume_id (filter (cluster_owned L c) vs)"
proof -
  have "map (blockdevicevolume_from_cinder_volume L) (filter (cluster_owned L c) vs) = map Inr rs"
    using assms list_volumes_loop_filter list_volumes_loop_Inr_wellformed by blast
  then show ?thesis
    by (rule map_Inr_transfer) (rule from_cinder_id)
qed

text \<open>
  Claim C1, as amended. For every configured cluster id and every provider listing in
  which no cluster label is malformed, \<open>list_volumes\<close> returns a list of records exactly
  when that list is, in listing order, the records of the volumes whose cluster label
  parses to the configured cluster id (so it returns iff each of those volumes maps to a
  record); \<open>is_cluster_volume\<close> accepts exactly the cluster-owned volumes, and a volume
  without a cluster label is rejected by the filter without an exception.
\<close>

theorem list_volumes_filters_by_cluster_label:
  assumes "\<forall>v\<in>set (fst (cinder_list E (world s))). cluster_label_wellformed L v"
  shows "(fst (list_volumes L E c s) = Inr rs \<longleftrightarrow>
            map (blockdevicevolume_from_cinder_volume L)
              (filter (cluster_owned L c) (fst (cinder_list E (world s)))) = map Inr rs) \<and>
         (is_cluster_volume L c v = Inr True \<longleftrightarrow> cluster_owned L c v) \<and>
         (volume_metadata v CLUSTER_ID_LABEL = None \<longrightarrow> is_cluster_volume L c v = Inr False)"
proof -
  have "fst (list_volumes L E c s) = list_volumes_loop L c (fst (cinder_list E (world s))) []"
    by (simp add: list_volumes_def do_list_def split: prod.splits)
  moreover have "volume_metadata v CLUSTER_ID_LABEL = None \<longrightarrow> is_cluster_volume L c v = Inr False"
    by (simp add: is_cluster_volume_def)
  ultimately show ?thesis
    using list_volumes_loop_filter[OF assms] is_cluster_volume_True_iff by simp
qed

text \<open>
  A run on a listing of four volumes, two of them of cluster 10.
\<close>

theorem list_volumes_filters_by_cluster_label_witness:
  "fst (list_volumes hex_lib fake_env 10
       (fake_state [vol_a, vol_other, vol_untagged, vol_b])) =
     Inr [\<lparr>blockdevice_id = ''vol-a'', size_bytes = 1000000000, host = None, dataset_id = 20\<rparr>,
          \<lparr>blockdevice_id = ''vol-b'', size_bytes = 1000000000, host = None, dataset_id = 21\<rparr>] \<and>
   filter (cluster_owned hex_lib 10) [vol_a, vol_other, vol_untagged, vol_b] = [vol_a, vol_b]"
proof -
  have wf: "\<forall>v\<in>set (fst (cinder_list fake_env (world (fake_state [vol_a, vol_other, vol_untagged, vol_b])))).
      cluster_label_wellformed hex_lib v"
    by (simp add: world_defs sample_defs mapping_defs hex_evals)
  show ?thesis
    using list_volumes_filters_by_cluster_label[OF wf, of 10
      "[\<lparr>blockdevice_id = ''vol-a'', size_bytes = 1000000000, host = None, dataset_id = 20\<rparr>,
          \<lparr>blockdevice_id = ''vol-b'', size_bytes = 1000000000, host = None, dataset_id = 21\<rparr>]"
      vol_untagged]
    by (simp add: world_defs sample_defs mapping_defs hex_evals)
qed

text \<open>
  As stated, C1 fails: a cluster-owned volume whose dataset label is not a UUID is in the
  listing, and \<open>list_volumes\<close> raises instead of returning a record for it.
\<close>

theorem list_volumes_bad_dataset_counterexample:
  "cluster_owned hex_lib 10 vol_bad_dataset \<and>
   fst (list_volumes hex_lib fake_env 10 (fake_state [vol_a, vol_bad_dataset])) = Inl ValueError"
  by (simp add: list_volumes_def world_defs sample_defs mapping_defs hex_evals)

text \<open>
  Two more runs. A cluster label that is not a UUID does not exclude its volume: the
  constructor's \<^verbatim>\<open>ValueError\<close> leaves \<open>is_cluster_volume\<close>, whose docstring promises
  \<^verbatim>\<open>False\<close> for every volume that does not match. A cluster-owned volume without a
  dataset label raises \<^verbatim>\<open>KeyError\<close>.
\<close>

lemma list_volumes_malformed_cluster_label:
  "fst (list_volumes hex_lib fake_env 10 (fake_state [vol_a, vol_bad_cluster])) = Inl ValueError"
  by (simp add: list_volumes_def world_defs sample_defs mapping_defs hex_evals)

lemma list_volumes_missing_dataset_label:
  "cluster_owned hex_lib 10 vol_no_dataset \<and>
   fst (list_volumes hex_lib fake_env 10 (fake_state [vol_no_dataset])) =
     Inl (KeyError ''flocker-dataset-id'')"
  by (simp add: list_volumes_def world_defs sample_defs mapping_defs hex_evals)

subsection \<open>_blockdevicevolume_from_cinder_volume: a dataset label that is not a UUID\<close>

lemma from_cinder_fields:
  assumes "blockdevicevolume_from_cinder_volume L v = Inr r"
  shows "blockdevice_id r = volume_id v \<and> host r = None \<and>
         size_bytes r = py_int (GB_to_Byte (fl L) (volume_size v)) \<and>
         (\<exists>label. volume_metadata v DATASET_ID_LABEL = Some label \<and> UUID L label = Some (dataset_id r))"
proof (cases "volume_metadata v DATASET_ID_LABEL")
  case None
  then show ?thesis using assms by (simp add: blockdevicevolume_from_cinder_volume_def)
next
  case (Some label)
  show ?thesis
  proof (cases "UUID L label")
    case None
    then show ?thesis using assms Some by (simp add: blockdevicevolume_from_cinder_volume_def)
  next
    case u: (Some u)
    have "r = \<lparr>blockdevice_id = volume_id v,
               size_bytes = py_int (GB_to_Byte (fl L) (volume_size v)),
               host = None, dataset_id = u\<rparr>"
      using assms Some u by (simp add: blockdevicevolume_from_cinder_volume_def)
    then show ?thesis using Some u by simp
  qed
qed

lemma list_volumes_loop_append:
  "list_volumes_loop L c (pre @ vs) acc =
     (case list_volumes_loop L c pre acc of Inl e \<Rightarrow> Inl e | Inr rs \<Rightarrow> list_volumes_loop L c vs rs)"
  by (induction pre arbitrary: acc) (auto split: sum.splits bool.splits)

text \<open>
  Claim C7, as amended. For every provider volume whose metadata contains the dataset
  label with a value that is not a valid UUID, mapping it to a volume record fails with
  the \<^verbatim>\<open>ValueError\<close> of the UUID constructor, which carries neither the volume's id nor
  the name of the field; no record is returned and no value is coerced. When the volume
  is cluster-owned and the volumes listed before it map without error, \<open>list_volumes\<close>
  fails with that \<^verbatim>\<open>ValueError\<close>.
\<close>

theorem malformed_dataset_label_raises_ValueError:
  assumes "volume_metadata v DATASET_ID_LABEL = Some d" and "UUID L d = None"
  shows "blockdevicevolume_from_cinder_volume L v = Inl ValueError \<and>
         (cluster_owned L c v \<and> fst (cinder_list E (world s)) = pre @ v # post \<and>
          (\<exists>rs. list_volumes_loop L c pre [] = Inr rs) \<longrightarrow>
            fst (list_volumes L E c s) = Inl ValueError)"
proof -
  have m: "blockdevicevolume_from_cinder_volume L v = Inl ValueError"
    using assms by (simp add: blockdevicevolume_from_cinder_volume_def)
  have "fst (list_volumes L E c s) = Inl ValueError"
    if "cluster_owned L c v" "fst (cinder_list E (world s)) = pre @ v # post"
       "list_volumes_loop L c pre [] = Inr rs" for rs
    using that m is_cluster_volume_True_iff[of L c v]
    by (simp add: list_volumes_fst list_volumes_loop_append)
  then show ?thesis using m by blast
qed

text \<open>
  A run on a listing whose second volume has the dataset label \<^verbatim>\<open>not-a-uuid\<close>.
\<close>

theorem malformed_dataset_label_raises_ValueError_witness:
  "volume_metadata vol_bad_dataset DATASET_ID_LABEL = Some ''not-a-uuid'' \<and>
   UUID hex_lib ''not-a-uuid'' = None \<and> cluster_owned hex_lib 10 vol_bad_dataset \<and>
   fst (list_volumes hex_lib fake_env 10 (fake_state [vol_a, vol_bad_dataset, vol_b])) =
     Inl ValueError"
proof -
  have d: "volume_metadata vol_bad_dataset DATASET_ID_LABEL = Some ''not-a-uuid''"
    by (simp add: sample_defs)
  have u: "UUID hex_lib ''not-a-uuid'' = None"
    by (simp add: hex_lib_def hex_evals)
  have o: "cluster_owned hex_lib 10 vol_bad_dataset"
    by (simp add: sample_defs mapping_defs hex_evals hex_lib_def)
  have l: "fst (cinder_list fake_env (world (fake_state [vol_a, vol_bad_dataset, vol_b]))) =
      [vol_a] @ vol_bad_dataset # [vol_b]"
    by (simp add: world_defs)
  have p: "\<exists>rs. list_volumes_loop hex_lib 10 [vol_a] [] = Inr rs"
    by (simp add: sample_defs mapping_defs hex_evals hex_lib_def)
  show ?thesis
    using malformed_dataset_label_raises_ValueError[OF d u, of 10 fake_env
        "fake_state [vol_a, vol_bad_dataset, vol_b]" "[vol_a]" "[vol_b]"] d u o l p
    by blast
qed

text \<open>
  As stated, C7 fails: the error raised for the sample volume is the bare \<^verbatim>\<open>ValueError\<close>,
  not an error that identifies the volume and the field.
\<close>

theorem malformed_dataset_label_counterexample:
  "blockdevicevolume_from_cinder_volume hex_lib vol_bad_dataset = Inl ValueError"
  by (simp add: sample_defs mapping_defs hex_evals hex_lib_def)

subsection \<open>create_volume: the record returned\<close>

lemma create_volume_Inr:
  assumes "create_volume n L E c d sz s = Some (Inr r, s')"
  shows "blockdevicevolume_from_cinder_volume L
           (fst (do_create E (Byte_to_GB (fl L) sz) (request_metadata L c d) s)) = Inr r"
  using assms
  by (auto simp: create_volume_def Let_def split: prod.splits option.splits sum.splits)

text \<open>
  Claim C2. For every dataset id that the UUID constructor reads back from its printed
  form, and every size: when \<open>create_volume\<close> succeeds and the volume returned by the
  provider's create call carries the requested metadata, the record returned is the one
  built from that requested volume (whatever the volume observed by polling is), so its
  \<open>dataset_id\<close> is the input's and its \<open>host\<close> is \<^verbatim>\<open>None\<close>.
\<close>

theorem create_volume_returns_requested_volume:
  assumes "create_volume n L E c d sz s = Some (Inr r, s')"
    and "requested = fst (do_create E (Byte_to_GB (fl L) sz) (request_metadata L c d) s)"
    and "volume_metadata requested = request_metadata L c d"
    and "UUID L (unicode_uuid L d) = Some d"
  shows "blockdevicevolume_from_cinder_volume L requested = Inr r \<and>
         blockdevice_id r = volume_id requested \<and> dataset_id r = d \<and> host r = None"
proof -
  have r: "blockdevicevolume_from_cinder_volume L requested = Inr r"
    using create_volume_Inr[OF assms(1)] assms(2) by simp
  have "volume_metadata requested DATASET_ID_LABEL = Some (unicode_uuid L d)"
    using assms(3) by (simp add: request_metadata_def)
  then show ?thesis
    using from_cinder_fields[OF r] r assms(4) by auto
qed

text \<open>
  A run against a provider that lists the new volume as available without its metadata.
\<close>

theorem create_volume_returns_requested_volume_witness:
  "(\<exists>s'. create_volume 1 hex_lib fake_env 10 20 1500000000 (fake_state []) =
      Some (Inr \<lparr>blockdevice_id = ''vol-new'', size_bytes = 1500000000, host = None,
        dataset_id = 20\<rparr>, s')) \<and>
   UUID hex_lib (unicode_uuid hex_lib 20) = Some 20 \<and>
   blockdevicevolume_from_cinder_volume hex_lib
     (fst (do_create fake_env (Byte_to_GB (fl hex_lib) 1500000000) (request_metadata hex_lib 10 20)
        (fake_state []))) =
     Inr \<lparr>blockdevice_id = ''vol-new'', size_bytes = 1500000000, host = None, dataset_id = 20\<rparr>"
proof -
  have "\<exists>s'. create_volume 1 hex_lib fake_env 10 20 1500000000 (fake_state []) =
      Some (Inr \<lparr>blockdevice_id = ''vol-new'', size_bytes = 1500000000, host = None,
        dataset_id = 20\<rparr>, s')"
    by (simp add: adapter_defs world_defs sample_defs mapping_defs hex_evals Let_def)
  then obtain s' where c: "create_volume 1 hex_lib fake_env 10 20 1500000000 (fake_state []) =
      Some (Inr \<lparr>blockdevice_id = ''vol-new'', size_bytes = 1500000000, host = None,
        dataset_id = 20\<rparr>, s')"
    by blast
  have m: "volume_metadata (fst (do_create fake_env (Byte_to_GB (fl hex_lib) 1500000000)
      (request_metadata hex_lib 10 20) (fake_state []))) = request_metadata hex_lib 10 20"
    by (simp add: world_defs)
  have u: "UUID hex_lib (unicode_uuid hex_lib 20) = Some 20"
    by (simp add: hex_lib_def hex_evals)
  show ?thesis
    using create_volume_returns_requested_volume[OF c refl m u] c u by blast
qed

text \<open>
  In that run the volume observed by polling has lost its metadata: a record could not
  have been built from it.
\<close>

lemma create_volume_listed_without_metadata:
  "map (\<lambda>v. (volume_id v, blockdevicevolume_from_cinder_volume hex_lib v))
     (fst (cinder_list fake_env (snd (cinder_create fake_env (3 / 2) (request_metadata hex_lib 10 20)
        fake_world0)))) =
   [(''vol-new'', Inl (KeyError DATASET_ID_LABEL))]"
  by (simp add: world_defs mapping_defs)

text \<open>
  The round trip of a size through the provider's unit. The result of each of the two
  conversions is rounded; with a relative error of at most \<open>2\<^sup>-\<^sup>5\<^sup>0\<close> per conversion
  (one operation on doubles rounds to \<open>2\<^sup>-\<^sup>5\<^sup>3\<close>) and the truncation of \<^verbatim>\<open>int\<close>, a
  size below \<open>2\<^sup>6\<^sup>4\<close> bytes comes back within 49153 bytes; in exact arithmetic it
  comes back unchanged.
\<close>

lemma py_int_near: "\<bar>real_of_int (py_int x) - x\<bar> < 1"
  unfolding py_int_def by (auto simp: abs_if) linarith+

lemma of_int_less_two_64:
  fixes sz :: int assumes "sz < 2 ^ 64" shows "real_of_int sz < 2 ^ 64"
proof -
  have "real_of_int sz < real_of_int (2 ^ 64)" using assms by (simp only: of_int_less_iff)
  then show ?thesis by simp
qed

lemma scaled_error_bound:
  fixes y1 a s :: real
  assumes h1: "\<bar>y1 - a\<bar> \<le> a / 2 ^ 50" and aG: "a * 10 ^ 9 = s"
  shows "\<bar>y1 * 10 ^ 9 - s\<bar> \<le> s / 2 ^ 50"
proof -
  have "\<bar>y1 * 10 ^ 9 - a * 10 ^ 9\<bar> = \<bar>(y1 - a) * 10 ^ 9\<bar>"
    by (simp only: left_diff_distrib)
  also have "\<dots> = \<bar>y1 - a\<bar> * 10 ^ 9"
    by (simp only: abs_mult) simp
  also have "\<dots> \<le> (a / 2 ^ 50) * 10 ^ 9"
    using h1 by (rule mult_right_mono) simp
  also have "\<dots> = (a * 10 ^ 9) / 2 ^ 50"
    by (simp only: times_divide_eq_left)
  finally show ?thesis by (simp only: aG)
qed

lemma two_roundings_bound:
  fixes y1G y2 s :: real
  assumes h2: "\<bar>y2 - y1G\<bar> \<le> \<bar>y1G\<bar> / 2 ^ 50"
    and h3: "\<bar>y1G - s\<bar> \<le> s / 2 ^ 50" and s0: "0 \<le> s" and sb: "s < 2 ^ 64"
  shows "\<bar>y2 - s\<bar> < 49152"
proof -
  have e: "s / 2 ^ 50 \<le> s" using s0 by (rule divide_le_eq_1_pos[THEN iffD2, rotated -1, of _ "2^50"] | simp add: field_simps)+
  have h4: "\<bar>y1G\<bar> \<le> 2 * s" using h3 e by linarith
  have "\<bar>y1G\<bar> / 2 ^ 50 \<le> (2 * s) / 2 ^ 50"
    using h4 by (rule divide_right_mono) simp
  then have h5: "\<bar>y2 - s\<bar> \<le> (2 * s) / 2 ^ 50 + s / 2 ^ 50"
    using h2 h3 by linarith
  have "(2 * s) / 2 ^ 50 + s / 2 ^ 50 = (3 * s) / 2 ^ 50"
    by (simp add: add_divide_distrib[symmetric] del: add_divide_distrib)
  moreover have "(3 * s) / 2 ^ 50 < (3 * 2 ^ 64) / 2 ^ 50"
    using sb by (intro divide_strict_right_mono) simp_all
  moreover have "(3 * 2 ^ 64) / 2 ^ 50 = (49152 :: real)" by simp
  ultimately show ?thesis using h5 by linarith
qed

lemma round_trip_bound:
  fixes rnd :: "real \<Rightarrow> real" and sz :: int
  assumes rnd: "\<And>x. \<bar>rnd x - x\<bar> \<le> \<bar>x\<bar> / 2 ^ 50" and "0 \<le> sz" and "sz < 2 ^ 64"
  shows "\<bar>py_int (GB_to_Byte rnd (Byte_to_GB rnd sz)) - sz\<bar> < 10 ^ 9"
proof -
  define a :: real where "a = real_of_int sz / 10 ^ 9"
  define y1 where "y1 = rnd a"
  define y2 where "y2 = rnd (y1 * 10 ^ 9)"
  have s0: "0 \<le> real_of_int sz" using assms(2) by simp
  have a0: "0 \<le> a" unfolding a_def using s0 by (rule divide_nonneg_nonneg) simp
  have aG: "a * 10 ^ 9 = real_of_int sz" by (simp add: a_def)
  have szb: "real_of_int sz < 2 ^ 64" using assms(3) by (rule of_int_less_two_64)
  have "\<bar>y1 - a\<bar> \<le> \<bar>a\<bar> / 2 ^ 50" unfolding y1_def by (rule rnd)
  then have h1: "\<bar>y1 - a\<bar> \<le> a / 2 ^ 50" using a0 by (simp only: abs_of_nonneg)
  have h3: "\<bar>y1 * 10 ^ 9 - real_of_int sz\<bar> \<le> real_of_int sz / 2 ^ 50"
    using h1 aG by (rule scaled_error_bound)
  have h2: "\<bar>y2 - y1 * 10 ^ 9\<bar> \<le> \<bar>y1 * 10 ^ 9\<bar> / 2 ^ 50"
    unfolding y2_def by (rule rnd)
  have h6: "\<bar>y2 - real_of_int sz\<bar> < 49152"
    using h2 h3 s0 szb by (rule two_roundings_bound)
  have "\<bar>real_of_int (py_int y2) - real_of_int sz\<bar> < 49153"
    using h6 py_int_near[of y2] by linarith
  then have "real_of_int \<bar>py_int y2 - sz\<bar> < real_of_int 49153"
    by simp
  then have "\<bar>py_int y2 - sz\<bar> < 49153"
    by (simp only: of_int_less_iff)
  then have "\<bar>py_int y2 - sz\<bar> < 10 ^ 9"
    by simp
  then show ?thesis
    by (simp only: y2_def y1_def a_def GB_to_Byte_def Byte_to_GB_def)
qed

lemma round_trip_exact:
  "py_int (GB_to_Byte (\<lambda>x. x) (Byte_to_GB (\<lambda>x. x) sz)) = sz"
  by (simp add: GB_to_Byte_def Byte_to_GB_def py_int_def)

text \<open>
  Claim C3. For every size from 0 up to \<open>2\<^sup>6\<^sup>4\<close> bytes: when \<open>create_volume\<close> succeeds
  and the volume returned by the provider's create call echoes the requested capacity,
  the \<open>size\<close> of the record is the requested size converted to GB and back to bytes, and
  it differs from the requested size by less than one GB (\<open>10\<^sup>9\<close> bytes). The floats
  that the two conversions compute are any roundings of the exact results with a
  relative error of at most \<open>2\<^sup>-\<^sup>5\<^sup>0\<close>.
\<close>

theorem create_volume_size_within_one_GB:
  assumes "create_volume n L E c d sz s = Some (Inr r, s')"
    and "volume_size (fst (do_create E (Byte_to_GB (fl L) sz) (request_metadata L c d) s)) =
           Byte_to_GB (fl L) sz"
    and "\<And>x. \<bar>fl L x - x\<bar> \<le> \<bar>x\<bar> / 2 ^ 50"
    and "0 \<le> sz" and "sz < 2 ^ 64"
  shows "size_bytes r = py_int (GB_to_Byte (fl L) (Byte_to_GB (fl L) sz)) \<and>
         \<bar>size_bytes r - sz\<bar> < 10 ^ 9"
proof -
  have "size_bytes r = py_int (GB_to_Byte (fl L) (Byte_to_GB (fl L) sz))"
    using from_cinder_fields[OF create_volume_Inr[OF assms(1)]] assms(2) by simp
  then show ?thesis
    using round_trip_bound[of "fl L" sz, OF assms(3) assms(4) assms(5)] by simp
qed

text \<open>
  A run in exact arithmetic: 1234567891 bytes are requested as 1.234567891 GB and come
  back as 1234567891 bytes.
\<close>

theorem create_volume_size_within_one_GB_witness:
  "(\<exists>s'. create_volume 1 hex_lib fake_env 10 20 1234567891 (fake_state []) =
      Some (Inr \<lparr>blockdevice_id = ''vol-new'', size_bytes = 1234567891, host = None,
        dataset_id = 20\<rparr>, s')) \<and>
   \<bar>size_bytes \<lparr>blockdevice_id = ''vol-new'', size_bytes = 1234567891, host = None,
        dataset_id = 20\<rparr> - 1234567891\<bar> < 10 ^ 9"
proof -
  have "\<exists>s'. create_volume 1 hex_lib fake_env 10 20 1234567891 (fake_state []) =
      Some (Inr \<lparr>blockdevice_id = ''vol-new'', size_bytes = 1234567891, host = None,
        dataset_id = 20\<rparr>, s')"
    by (simp add: adapter_defs world_defs sample_defs mapping_defs hex_evals Let_def)
  then obtain s' where c: "create_volume 1 hex_lib fake_env 10 20 1234567891 (fake_state []) =
      Some (Inr \<lparr>blockdevice_id = ''vol-new'', size_bytes = 1234567891, host = None,
        dataset_id = 20\<rparr>, s')"
    by blast
  have e: "volume_size (fst (do_create fake_env (Byte_to_GB (fl hex_lib) 1234567891)
      (request_metadata hex_lib 10 20) (fake_state []))) = Byte_to_GB (fl hex_lib) 1234567891"
    by (simp add: world_defs)
  have f: "\<And>x. \<bar>fl hex_lib x - x\<bar> \<le> \<bar>x\<bar> / 2 ^ 50"
    by (simp add: hex_lib_def)
  have "(0::int) \<le> 1234567891" and "(1234567891::int) < 2 ^ 64"
    by simp_all
  then show ?thesis
    using create_volume_size_within_one_GB[OF c e f] c by blast
qed

subsection \<open>attach_volume: the lookup\<close>

lemma find_id_None:
  "find (\<lambda>v. blockdevice_id v = b) rs = None \<longleftrightarrow> b \<notin> set (map blockdevice_id rs)"
  by (auto simp: find_None_iff)

text \<open>
  Claim C5, as amended. For every provider listing on which \<open>list_volumes\<close> returns, and
  every \<open>blockdevice_id\<close>: if no cluster-owned volume of the listing has that id,
  \<open>attach_volume\<close> fails with \<open>UnknownVolume\<close> carrying the id, and the only request on
  record is the listing request of the lookup (no attach request reaches the compute
  capability); if some cluster-owned volume has the id, the lookup returns a record of
  the listing with that id.
\<close>

theorem attach_volume_unknown_volume:
  assumes "fst (list_volumes L E c s) = Inr rs"
  shows "((\<forall>v\<in>set (fst (cinder_list E (world s))). \<not> (cluster_owned L c v \<and> volume_id v = b)) \<longrightarrow>
            attach_volume n L E c b h s = Some (Inl (UnknownVolume b), snd (do_list E s))) \<and>
         calls (snd (do_list E s)) = calls s @ [CinderList] \<and>
         ((\<exists>v\<in>set (fst (cinder_list E (world s))). cluster_owned L c v \<and> volume_id v = b) \<longrightarrow>
            (\<exists>r. fst (get L E c b s) = Inr r \<and> blockdevice_id r = b \<and> r \<in> set rs))"
proof -
  have ids: "map blockdevice_id rs =
      map volume_id (filter (cluster_owned L c) (fst (cinder_list E (world s))))"
    using assms by (simp add: list_volumes_fst list_volumes_loop_ids)
  have mem: "b \<in> set (map blockdevice_id rs) \<longleftrightarrow>
      (\<exists>v\<in>set (fst (cinder_list E (world s))). cluster_owned L c v \<and> volume_id v = b)"
    unfolding ids by auto
  have absent: "attach_volume n L E c b h s = Some (Inl (UnknownVolume b), snd (do_list E s))"
    if "b \<notin> set (map blockdevice_id rs)"
  proof -
    have "find (\<lambda>v. blockdevice_id v = b) rs = None"
      using that find_id_None[of b rs] by blast
    then have "fst (get L E c b s) = Inl (UnknownVolume b)"
      using assms by (simp add: get_fst)
    then have "get L E c b s = (Inl (UnknownVolume b), snd (do_list E s))"
      using get_snd[of L E c b s] by (cases "get L E c b s") simp
    then show ?thesis by (simp add: attach_volume_def)
  qed
  have present: "\<exists>r. fst (get L E c b s) = Inr r \<and> blockdevice_id r = b \<and> r \<in> set rs"
    if b_in: "b \<in> set (map blockdevice_id rs)"
  proof -
    have "find (\<lambda>v. blockdevice_id v = b) rs \<noteq> None"
      using b_in find_id_None[of b rs] by blast
    then obtain r where r: "find (\<lambda>v. blockdevice_id v = b) rs = Some r"
      by blast
    then have "blockdevice_id r = b \<and> r \<in> set rs"
      by (auto simp: find_Some_iff)
    then show ?thesis using r assms by (simp add: get_fst)
  qed
  show ?thesis using absent present mem do_list_calls by blast
qed

text \<open>
  A run: \<^verbatim>\<open>vol-other\<close> is listed, but for another cluster, and is unknown; \<^verbatim>\<open>vol-a\<close>
  is found.
\<close>

theorem attach_volume_unknown_volume_witness:
  "fst (list_volumes hex_lib fake_env 10 (fake_state [vol_a, vol_other, vol_untagged])) =
     Inr [\<lparr>blockdevice_id = ''vol-a'', size_bytes = 1000000000, host = None, dataset_id = 20\<rparr>] \<and>
   map_option fst (attach_volume 1 hex_lib fake_env 10 ''vol-other'' ''node-1''
      (fake_state [vol_a, vol_other, vol_untagged])) = Some (Inl (UnknownVolume ''vol-other'')) \<and>
   map_option (calls \<circ> snd) (attach_volume 1 hex_lib fake_env 10 ''vol-other'' ''node-1''
      (fake_state [vol_a, vol_other, vol_untagged])) = Some [CinderList] \<and>
   fst (get hex_lib fake_env 10 ''vol-a'' (fake_state [vol_a, vol_other, vol_untagged])) =
     Inr \<lparr>blockdevice_id = ''vol-a'', size_bytes = 1000000000, host = None, dataset_id = 20\<rparr>"
proof -
  have l: "fst (list_volumes hex_lib fake_env 10 (fake_state [vol_a, vol_other, vol_untagged])) =
     Inr [\<lparr>blockdevice_id = ''vol-a'', size_bytes = 1000000000, host = None, dataset_id = 20\<rparr>]"
    by (simp add: list_volumes_def world_defs sample_defs mapping_defs hex_evals)
  have a: "\<forall>v\<in>set (fst (cinder_list fake_env (world (fake_state [vol_a, vol_other, vol_untagged])))).
      \<not> (cluster_owned hex_lib 10 v \<and> volume_id v = ''vol-other'')"
    by (simp add: world_defs sample_defs mapping_defs hex_evals)
  have p: "\<exists>v\<in>set (fst (cinder_list fake_env (world (fake_state [vol_a, vol_other, vol_untagged])))).
      cluster_owned hex_lib 10 v \<and> volume_id v = ''vol-a''"
    by (simp add: world_defs sample_defs mapping_defs hex_evals)
  have c: "calls (snd (do_list fake_env (fake_state [vol_a, vol_other, vol_untagged]))) = [CinderList]"
    by (simp add: world_defs)
  show ?thesis
    using attach_volume_unknown_volume[OF l, of "''vol-other''" 1 "''node-1''"]
      attach_volume_unknown_volume[OF l, of "''vol-a''" 1 "''node-1''"] a p c l
    by auto
qed

text \<open>
  As stated, for every listing, C5 fails: the lookup is made on the result of
  \<open>list_volumes\<close>, so an error of the listing comes first. No cluster-owned volume has the
  id \<^verbatim>\<open>vol-x\<close>, and the call fails with the \<^verbatim>\<open>ValueError\<close> of another volume's dataset
  label, not with \<open>UnknownVolume\<close>.
\<close>

theorem attach_volume_bad_listing_counterexample:
  "''vol-x'' \<notin> set (map volume_id (filter (cluster_owned hex_lib 10) [vol_a, vol_bad_dataset])) \<and>
   map_option fst (attach_volume 1 hex_lib fake_env 10 ''vol-x'' ''node-1''
      (fake_state [vol_a, vol_bad_dataset])) = Some (Inl ValueError)"
  by (simp add: adapter_defs world_defs sample_defs mapping_defs hex_evals)

subsection \<open>attach_volume: the device path\<close>

text \<open>
  Claim C10. On a host with 26 or more entries of \<^verbatim>\<open>/dev\<close> that start with
  \<^verbatim>\<open>/dev/xvd\<close> and have a base name of four characters, the unguarded lookup of the next
  letter fails with \<^verbatim>\<open>IndexError\<close> instead of a path. \<open>attach_volume\<close> then fails, having
  sent the provider the listing request of the lookup and nothing else: with that
  \<^verbatim>\<open>IndexError\<close> when the lookup and the instance id succeed, with their error otherwise.
\<close>

theorem attach_volume_alphabet_exhausted:
  assumes "26 \<le> length (existing_devices (dev_children E (world (snd (do_list E s)))))"
  shows "next_device (dev_children E (world (snd (do_list E s)))) = Inl IndexError \<and>
         (\<exists>e. attach_volume n L E c b h s = Some (Inl e, snd (do_list E s)) \<and>
              ((\<exists>r. fst (get L E c b s) = Inr r) \<and>
               (\<exists>u. instance_uuid L E (snd (do_list E s)) = Inr u) \<longrightarrow> e = IndexError)) \<and>
         calls (snd (do_list E s)) = calls s @ [CinderList]"
proof -
  have nd: "next_device (dev_children E (world (snd (do_list E s)))) = Inl IndexError"
    using assms by (rule next_device_exhausted)
  obtain g s1 where g: "get L E c b s = (g, s1)" by (cases "get L E c b s")
  have s1: "s1 = snd (do_list E s)" using g get_snd[of L E c b s] by simp
  have "\<exists>e. attach_volume n L E c b h s = Some (Inl e, s1) \<and>
              ((\<exists>r. g = Inr r) \<and> (\<exists>u. instance_uuid L E s1 = Inr u) \<longrightarrow> e = IndexError)"
    using g nd s1 by (auto simp: attach_volume_def split: sum.splits)
  then show ?thesis using nd g s1 do_list_calls by auto
qed

text \<open>
  A run on a host with the nodes \<^verbatim>\<open>xvda\<close> to \<^verbatim>\<open>xvdz\<close>: the volume is found, and the
  call fails with \<^verbatim>\<open>IndexError\<close> after the listing request alone.
\<close>

theorem attach_volume_alphabet_exhausted_witness:
  "26 \<le> length (existing_devices xvd_a_to_z) \<and>
   map_option fst (attach_volume 1 hex_lib fake_env 10 ''vol-a'' ''node-1''
      (fake_state_dev [vol_a] xvd_a_to_z True)) = Some (Inl IndexError) \<and>
   map_option (calls \<circ> snd) (attach_volume 1 hex_lib fake_env 10 ''vol-a'' ''node-1''
      (fake_state_dev [vol_a] xvd_a_to_z True)) = Some [CinderList]"
proof -
  have h: "26 \<le> length (existing_devices (dev_children fake_env
      (world (snd (do_list fake_env (fake_state_dev [vol_a] xvd_a_to_z True))))))"
    by (simp add: world_defs existing_devices_def startswith_def xvd_a_to_z_def
        ascii_lowercase_def)
  have g: "fst (get hex_lib fake_env 10 ''vol-a'' (fake_state_dev [vol_a] xvd_a_to_z True)) =
      Inr \<lparr>blockdevice_id = ''vol-a'', size_bytes = 1000000000, host = None, dataset_id = 20\<rparr>"
    by (simp add: adapter_defs world_defs sample_defs mapping_defs hex_evals)
  have i: "instance_uuid hex_lib fake_env
      (snd (do_list fake_env (fake_state_dev [vol_a] xvd_a_to_z True))) = Inr 10"
    by (simp add: instance_uuid_def world_defs rstrip_def isspace_def hex_evals)
  have c: "calls (snd (do_list fake_env (fake_state_dev [vol_a] xvd_a_to_z True))) = [CinderList]"
    by (simp add: world_defs)
  have e: "26 \<le> length (existing_devices xvd_a_to_z)"
    by (simp add: existing_devices_def startswith_def xvd_a_to_z_def ascii_lowercase_def)
  show ?thesis
    using attach_volume_alphabet_exhausted[OF h, of 1 hex_lib 10 "''vol-a''" "''node-1''"] g i c e
    by auto
qed

text \<open>
  Claim C6, as amended. For every \<open>attach_volume\<close> call in which the lookup, the instance
  id and the device path allocation succeed and the provider then reports the volume
  in-use: if the chosen device path does not exist on the local file system, the call
  fails with the \<^verbatim>\<open>AssertionError\<close> of its \<^verbatim>\<open>assert\<close>, which carries neither the
  \<open>blockdevice_id\<close> nor the device path, instead of returning a record; if the path
  exists, the record of the lookup is returned with \<open>host\<close> set.
\<close>

theorem attach_volume_checks_device_path:
  assumes "get L E c b s = (Inr unattached, s1)"
    and "instance_uuid L E s1 = Inr server"
    and "next_device (dev_children E (world s1)) = Inr device_path"
    and "do_create_server_volume E server (blockdevice_id unattached) device_path s1 = (nova_volume, s2)"
    and "wait_for_volume n E nova_volume ''in-use'' 60 s2 = Some (Inr listed, s3)"
  shows "attach_volume n L E c b h s =
           Some (if path_exists E device_path (world s3)
                 then Inr (unattached\<lparr>host := Some h\<rparr>) else Inl AssertionError, s3) \<and>
         volume_id listed = volume_id nova_volume \<and> volume_status listed = ''in-use''"
  using assms wait_for_volume_Inr_matches[OF assms(5)]
  by (simp add: attach_volume_def matches_def)

text \<open>
  A run in which the attach request creates the device node \<^verbatim>\<open>/dev/xvdb\<close>: the record
  comes back with the host set.
\<close>

theorem attach_volume_checks_device_path_witness:
  "map_option fst (attach_volume 1 hex_lib fake_env 10 ''vol-a'' ''node-1''
      (fake_state_dev [vol_a] [''xvda'', ''tty0''] True)) =
     Some (Inr \<lparr>blockdevice_id = ''vol-a'', size_bytes = 1000000000, host = Some ''node-1'',
       dataset_id = 20\<rparr>)"
proof -
  have "\<exists>s1 nova_volume s2 listed s3.
      get hex_lib fake_env 10 ''vol-a'' (fake_state_dev [vol_a] [''xvda'', ''tty0''] True) =
        (Inr \<lparr>blockdevice_id = ''vol-a'', size_bytes = 1000000000, host = None,
          dataset_id = 20\<rparr>, s1) \<and>
      instance_uuid hex_lib fake_env s1 = Inr 10 \<and>
      next_device (dev_children fake_env (world s1)) = Inr ''/dev/xvdb'' \<and>
      do_create_server_volume fake_env 10 ''vol-a'' ''/dev/xvdb'' s1 = (nova_volume, s2) \<and>
      wait_for_volume 1 fake_env nova_volume ''in-use'' 60 s2 = Some (Inr listed, s3) \<and>
      path_exists fake_env ''/dev/xvdb'' (world s3)"
    by (simp add: adapter_defs world_defs sample_defs mapping_defs hex_evals instance_uuid_def
      rstrip_def isspace_def next_device_def existing_devices_def startswith_def
      ascii_lowercase_def Let_def)
  then obtain s1 nova_volume s2 listed s3 where
      g: "get hex_lib fake_env 10 ''vol-a'' (fake_state_dev [vol_a] [''xvda'', ''tty0''] True) =
        (Inr \<lparr>blockdevice_id = ''vol-a'', size_bytes = 1000000000, host = None,
          dataset_id = 20\<rparr>, s1)" and
      i: "instance_uuid hex_lib fake_env s1 = Inr 10" and
      d: "next_device (dev_children fake_env (world s1)) = Inr ''/dev/xvdb''" and
      a: "do_create_server_volume fake_env 10 (blockdevice_id \<lparr>blockdevice_id = ''vol-a'',
          size_bytes = 1000000000, host = None, dataset_id = 20\<rparr>) ''/dev/xvdb'' s1 =
          (nova_volume, s2)" and
      w: "wait_for_volume 1 fake_env nova_volume ''in-use'' 60 s2 = Some (Inr listed, s3)" and
      p: "path_exists fake_env ''/dev/xvdb'' (world s3)"
    by auto
  show ?thesis
    using attach_volume_checks_device_path[OF g i d a w, of "''node-1''"] p by simp
qed

text \<open>
  As stated, C6 fails: with the device node absent after the provider reports in-use, the
  error is the argument-free \<^verbatim>\<open>AssertionError\<close>, not an error carrying the
  \<open>blockdevice_id\<close> and the device path.
\<close>

theorem attach_volume_no_device_node_counterexample:
  "map_option fst (attach_volume 1 hex_lib fake_env 10 ''vol-a'' ''node-1''
      (fake_state_dev [vol_a] [''xvda'', ''tty0''] False)) = Some (Inl AssertionError)"
  by (simp add: adapter_defs world_defs sample_defs mapping_defs hex_evals instance_uuid_def
      rstrip_def isspace_def next_device_def existing_devices_def startswith_def
      ascii_lowercase_def Let_def)

subsection \<open>The lifecycle methods left empty\<close>

text \<open>
  Claim C8. For every input, \<open>detach_volume\<close>, \<open>destroy_volume\<close>, \<open>resize_volume\<close> and
  \<open>get_device_path\<close> do nothing: the record of requests to the two capabilities and the
  world are what they were, and nothing is returned (\<open>get_device_path\<close> returns
  \<^verbatim>\<open>None\<close>, not a path).
\<close>

theorem unimplemented_methods_are_noops:
  "resize_volume b sz s = ((), s) \<and> detach_volume b s = ((), s) \<and>
   destroy_volume b s = ((), s) \<and> get_device_path b s = (None, s) \<and>
   calls (snd (resize_volume b sz s)) = calls s \<and> world (snd (resize_volume b sz s)) = world s \<and>
   calls (snd (detach_volume b s)) = calls s \<and> world (snd (detach_volume b s)) = world s \<and>
   calls (snd (destroy_volume b s)) = calls s \<and> world (snd (destroy_volume b s)) = world s \<and>
   calls (snd (get_device_path b s)) = calls s \<and> world (snd (get_device_path b s)) = world s"
  by (simp add: resize_volume_def detach_volume_def destroy_volume_def get_device_path_def)

end
